theory Spec2Isabelle
  imports Main "HOL-Library.Stream" "HOL-Library.Multiset"
begin

section \<open>Strings and cards\<close>

text \<open>
  A Python \<open>str\<close> is a sequence of Unicode code points. The card texts hold an
  \<open>e\<close> with acute accent (code point 233) and the prompt templates hold an em dash
  (code point 8212), so a string is modelled as the list of its code points; \<open>U\<close> turns
  an ASCII literal into such a list.
\<close>

type_synonym pychar = nat
type_synonym pystr = "pychar list"

definition U :: "string \<Rightarrow> pystr" where
  "U s = map of_char s"

text \<open>The enumeration \<open>Suit\<close> and the \<open>.value\<close> of its members.\<close>

datatype Suit = NETWORKS | EVENTS | AGENTS | RESOURCES

fun Suit_value :: "Suit \<Rightarrow> pystr" where
  "Suit_value NETWORKS = U ''Networks''"
| "Suit_value EVENTS = U ''Events''"
| "Suit_value AGENTS = U ''Agents''"
| "Suit_value RESOURCES = U ''Resources''"

text \<open>
  The dataclass \<open>Card\<close>. Both programs declare \<open>name\<close>, \<open>card_type\<close>, \<open>number\<close>
  (\<open>None\<close> for the Major Arcana), \<open>pattern\<close> and \<open>questions\<close>;
  \<open>systemsTarot.py\<close> adds \<open>examples\<close>, \<open>riskTarot.py\<close> adds \<open>failure_modes\<close>,
  \<open>emergence_patterns\<close> and \<open>batcave_context\<close>. A list field left out of a
  constructor call is \<open>None\<close> and \<open>__post_init__\<close> replaces it by the empty list.
\<close>

record card =
  name :: pystr
  card_type :: pystr
  number :: "int option"
  pattern :: pystr
  questions :: "pystr list"

record sys_card = card +
  examples :: "pystr list"

record risk_card = card +
  failure_modes :: "pystr list"
  emergence_patterns :: "pystr list"
  batcave_context :: pystr

text \<open>The columns of a card that the catalogue invariant speaks about.\<close>

definition card_key :: "'a card_scheme \<Rightarrow> pystr \<times> pystr \<times> int option" where
  "card_key c = (name c, card_type c, number c)"

section \<open>The catalogue of \<open>systemsTarot.py\<close>\<close>

text \<open>\<open>MAJOR_ARCANA\<close> and the lists the four \<open>create_*_suit\<close> functions return.\<close>

definition MAJOR_ARCANA :: "sys_card list" where
  \<open>MAJOR_ARCANA =
    [\<lparr>name = U ''The Cascade'',
      card_type = U ''Major'',
      number = None,
      pattern = U ''Small triggers creating disproportionate effects through connected systems.'',
      questions = [U ''What small change could trigger large consequences?'',
        U ''Where are the critical dependencies?'',
        U ''What chain reaction am I inside?''],
      examples = [U ''Engineering: Single component failure bringing down entire system'',
        U ''Social: Rumor spreading exponentially through network'',
        U ''Financial: Bank run triggering systemic crisis'',
        U ''Ecological: Keystone species removal cascading through food web'']\<rparr>,
     \<lparr>name = U ''The Network'',
      card_type = U ''Major'',
      number = None,
      pattern = U ''Distributed intelligence emerging from local connections without central control.'',
      questions = [U ''How can influence spread without direct authority?'',
        U ''What invisible networks am I part of?'',
        U ''Where does coordination emerge from simple rules?''],
      examples = [U ''Nature: Fungal networks sharing resources between trees'',
        U ''Social: Movements organizing without formal leadership'',
        U ''Technical: Mesh networks routing around damage'',
        U ''Economic: Market coordination without central planning'']\<rparr>,
     \<lparr>name = U ''The Threshold'',
      card_type = U ''Major'',
      number = None,
      pattern = U ''Tipping points where systems irreversibly shift to new states.'',
      questions = [U ''What point of no return am I approaching?'',
        U ''Can this change be reversed?'',
        U ''What early warnings signal the threshold?''],
      examples = [U ''Physics: Water freezing at critical temperature'',
        U ''Ecology: Lake flipping from clear to turbid state'',
        U ''Social: Trust collapse in relationships or institutions'',
        U ''Business: Market share tipping toward winner-takes-all'']\<rparr>,
     \<lparr>name = U ''The Emergence'',
      card_type = U ''Major'',
      number = None,
      pattern = U ''Complex order arising from simple interactions - patterns unpredictable from components.'',
      questions = [(U ''What'' @ [39] @ U ''s trying to emerge beyond my control?''),
        U ''Am I enabling conditions or forcing outcomes?'',
        U ''What unexpected patterns are appearing?''],
      examples = [U ''Biology: Consciousness emerging from neurons'',
        U ''Architecture: Desire paths emerging from foot traffic'',
        U ''Software: System behavior emerging from component interactions'',
        U ''Markets: Prices emerging from individual trades'']\<rparr>,
     \<lparr>name = U ''The Collapse'',
      card_type = U ''Major'',
      number = None,
      pattern = U ''System failure creating space for transformation - endings enabling beginnings.'',
      questions = [U ''What needs to end for something new to start?'',
        U ''Am I sustaining something past its useful life?'',
        U ''What opportunities exist in this breakdown?''],
      examples = [U ''Business: Company failure freeing capital for innovation'',
        U ''Ecology: Forest fire enabling new growth'',
        U ''Personal: Habit collapse creating space for change'',
        U ''Infrastructure: Old system retirement forcing modernization'']\<rparr>,
     \<lparr>name = U ''The Resilience'',
      card_type = U ''Major'',
      number = None,
      pattern = U ''Systems growing stronger through stress, not just surviving it.'',
      questions = [U ''How can I benefit from volatility?'',
        U ''What stressors make this system stronger?'',
        U ''Am I optimizing for efficiency or adaptability?''],
      examples = [U ''Biology: Muscles growing from exercise stress'',
        U ''Engineering: Redundant systems surviving failures'',
        U ''Economics: Diversified portfolios weathering shocks'',
        U ''Social: Communities strengthened through adversity'']\<rparr>,
     \<lparr>name = U ''The Attention'',
      card_type = U ''Major'',
      number = None,
      pattern = U ''Intelligence as selective focus - what gets measured gets managed.'',
      questions = [U ''Where is attention being directed?'',
        (U ''What'' @ [39] @ U ''s invisible because it'' @ [39] @ U ''s not measured?''),
        U ''How do I decide what matters?''],
      examples = [U ''Business: Metrics shaping organizational behavior'',
        U ''Media: Headlines directing public focus'',
        U ''Personal: Habits following tracked behaviors'',
        U ''AI: Attention mechanisms in neural networks'']\<rparr>,
     \<lparr>name = U ''The Feedback'',
      card_type = U ''Major'',
      number = None,
      pattern = U ''Control loops regulating or amplifying - systems responding to their own outputs.'',
      questions = [U ''What feedback loops am I inside?'',
        U ''Is this loop stabilizing or amplifying?'',
        U ''Where are delays hiding feedback?''],
      examples = [U ''Climate: Ice melting reducing reflectivity increasing melting'',
        U ''Economics: Inflation expectations driving actual inflation'',
        U ''Audio: Microphone near speaker creating squealing loop'',
        U ''Social: Panic causing behavior causing more panic'']\<rparr>,
     \<lparr>name = U ''The Boundary'',
      card_type = U ''Major'',
      number = None,
      pattern = U ''Edges between domains where different rules apply - operating at interfaces.'',
      questions = [U ''What boundary am I operating on?'',
        U ''How do rules change across this edge?'',
        (U ''What'' @ [39] @ U ''s possible at interfaces that isn'' @ [39] @ U ''t elsewhere?'')],
      examples = [U ''Biology: Cell membranes controlling exchange'',
        U ''Innovation: Cross-disciplinary insights at field boundaries'',
        U ''Geography: Coastal zones with unique ecosystems'',
        U ''Organization: Departments with different cultures meeting'']\<rparr>,
     \<lparr>name = U ''The Signal'',
      card_type = U ''Major'',
      number = None,
      pattern = U ''Meaningful information embedded in noise - distinguishing pattern from randomness.'',
      questions = [U ''What signal am I missing in the noise?'',
        U ''What noise am I treating as signal?'',
        U ''How do I amplify weak but important signals?''],
      examples = [U ''Medicine: Symptoms indicating underlying disease'',
        U ''Finance: Market movements signaling regime changes'',
        U ''Science: Experimental data revealing new phenomena'',
        U ''Social: Weak signals indicating cultural shifts'']\<rparr>,
     \<lparr>name = U ''The Compression'',
      card_type = U ''Major'',
      number = None,
      pattern = U ''Reducing complexity to fit constraints - translation with information loss.'',
      questions = [U ''What am I losing by simplifying?'',
        U ''Is this compression necessary or habitual?'',
        (U ''What'' @ [39] @ U ''s the minimum viable complexity?'')],
      examples = [U ''Communication: Explaining expertise to non-experts'',
        U ''Data: Lossy compression for storage/transmission'',
        U ''Models: Simplified representations of complex reality'',
        U ''Teaching: Reducing concepts to learnable chunks'']\<rparr>,
     \<lparr>name = U ''The Archipelago'',
      card_type = U ''Major'',
      number = None,
      pattern = U ''Parallel systems developing independently with rare cross-pollination.'',
      questions = [U ''What separate systems am I maintaining?'',
        U ''Which deserves attention now?'',
        U ''Where might connections create value?''],
      examples = [U ''Biology: Isolated populations evolving differently'',
        U ''Projects: Multiple initiatives progressing in parallel'',
        U ''Knowledge: Separate fields occasionally intersecting'',
        U ''Communities: Independent groups with occasional exchange'']\<rparr>,
     \<lparr>name = U ''The Continuity'',
      card_type = U ''Major'',
      number = None,
      pattern = U ''Mechanisms ensuring survival through disruption - what persists when everything changes.'',
      questions = [U ''What must survive no matter what?'',
        U ''How do I ensure continuity through crisis?'',
        (U ''What'' @ [39] @ U ''s essential versus merely important?'')],
      examples = [U ''Biology: DNA preserving information across generations'',
        U ''Business: Succession planning and redundancy'',
        U ''Culture: Traditions maintaining identity through change'',
        U ''Infrastructure: Backup systems for critical functions'']\<rparr>,
     \<lparr>name = U ''The Translation'',
      card_type = U ''Major'',
      number = None,
      pattern = U ''Converting between different contexts or languages - bridging incompatible systems.'',
      questions = [U ''What am I translating and for whom?'',
        (U ''What'' @ [39] @ U ''s inevitably lost in translation?''),
        U ''When should I speak natively instead?''],
      examples = [U ''Language: Interpreting between speakers'',
        U ''Technical: Explaining complex systems to stakeholders'',
        U ''Cultural: Bridging different organizational norms'',
        U ''Format: Converting data between systems'']\<rparr>,
     \<lparr>name = U ''The Vigilance'',
      card_type = U ''Major'',
      number = None,
      pattern = U ''Constant scanning for threats or changes - maintaining readiness at a cost.'',
      questions = [U ''What threat am I actually responding to?'',
        U ''Is this vigilance still serving its purpose?'',
        (U ''What'' @ [39] @ U ''s the cost of constant alertness?'')],
      examples = [U ''Security: Continuous monitoring for intrusions'',
        U ''Health: Immune system scanning for pathogens'',
        U ''Markets: Traders watching for opportunities/risks'',
        U ''Personal: Hyperawareness from past trauma'']\<rparr>,
     \<lparr>name = U ''The Reframe'',
      card_type = U ''Major'',
      number = None,
      pattern = U ''Radical perspective shift - abandoning the current game for a different one.'',
      questions = [U ''What assumption am I locked into?'',
        U ''What would the opposite approach look like?'',
        U ''Am I solving the wrong problem?''],
      examples = [U ''Business: Pivoting to new market instead of fighting in old'',
        U ''Problem-solving: Changing the question instead of finding answers'',
        U ''Conflict: Redefining win conditions'',
        U ''Innovation: Questioning fundamental assumptions'']\<rparr>,
     \<lparr>name = U ''The Synthesis'',
      card_type = U ''Major'',
      number = None,
      pattern = U ''Creating novel combinations from existing elements - the alchemical moment.'',
      questions = [U ''What elements could combine in new ways?'',
        U ''Where do my domains intersect unexpectedly?'',
        U ''What emerges from connection A + B + C?''],
      examples = [U ''Innovation: Smartphone combining phone + computer + camera'',
        U ''Cuisine: Fusion cooking merging culinary traditions'',
        U ''Science: Interdisciplinary insights creating new fields'',
        U ''Art: Mixed media creating novel expressions'']\<rparr>,
     \<lparr>name = U ''The Stewardship'',
      card_type = U ''Major'',
      number = None,
      pattern = U ''Tending systems without controlling - creating conditions for emergence.'',
      questions = [U ''What am I controlling that I should be stewarding?'',
        U ''What conditions enable natural growth?'',
        U ''When do I intervene versus observe?''],
      examples = [U ''Gardening: Providing conditions, not forcing growth'',
        U ''Leadership: Enabling teams rather than micromanaging'',
        U ''Ecology: Conservation through habitat protection'',
        U ''Teaching: Creating learning environments'']\<rparr>,
     \<lparr>name = U ''The Release'',
      card_type = U ''Major'',
      number = None,
      pattern = U ''Operating at full capacity without constraint - permission to expand completely.'',
      questions = [U ''What would I do without current constraints?'',
        (U ''What'' @ [39] @ U ''s my actual scope when uncompressed?''),
        U ''Who am I when not adapting to limits?''],
      examples = [U ''Creative: Artist working without commercial constraints'',
        U ''Athletic: Performing at peak without holding back'',
        U ''Intellectual: Exploring ideas at full depth'',
        U ''Expression: Communicating without translation'']\<rparr>,
     \<lparr>name = U ''The Unknown Unknown'',
      card_type = U ''Major'',
      number = None,
      pattern = (U ''What you don'' @ [39] @ U ''t know you don'' @ [39] @ U ''t know - the space beyond your map.''),
      questions = [U ''What am I not even asking about?'',
        U ''What would reveal this blind spot?'',
        (U ''Who might see what I'' @ [39] @ U ''m missing?'')],
      examples = [U ''Science: Paradigm shifts from unexpected discoveries'',
        U ''Business: Disruption from unconsidered competitors'',
        U ''Personal: Assumptions never questioned'',
        U ''Risk: Black swans by definition unexpected'']\<rparr>,
     \<lparr>name = U ''The Legacy'',
      card_type = U ''Major'',
      number = None,
      pattern = U ''What persists beyond individual existence - inheritance across time.'',
      questions = [U ''What am I building that outlasts me?'',
        U ''Who carries forward what I started?'',
        (U ''What'' @ [39] @ U ''s worth preserving?'')],
      examples = [U ''Culture: Knowledge transmission across generations'',
        U ''Infrastructure: Buildings and systems serving future users'',
        (U ''Teaching: Ideas living in students'' @ [39] @ U '' minds''),
        U ''Nature: Ecosystems shaped by past species'']\<rparr>,
     \<lparr>name = U ''The Presence'',
      card_type = U ''Major'',
      number = None,
      pattern = U ''Being fully here now without prediction or planning - stopping the chess game.'',
      questions = [U ''Where am I actually right now?'',
        U ''What am I missing by being elsewhere mentally?'',
        U ''Can I engage without constantly anticipating?''],
      examples = [U ''Mindfulness: Awareness of current moment'',
        U ''Flow states: Full engagement in activity'',
        U ''Relationships: Genuine connection requiring presence'',
        U ''Performance: Responding to what is, not what might be'']\<rparr>]\<close>

definition create_networks_suit :: "sys_card list" where
  \<open>create_networks_suit =
    [\<lparr>name = U ''Ace of Networks'',
      card_type = Suit_value NETWORKS,
      number = Some 1,
      pattern = U ''Pure potential of connection - the first link.'',
      questions = [U ''What new connection wants to form?'',
        U ''What relationship is just beginning?''],
      examples = [U ''Infrastructure: First cable connecting two locations'',
        U ''Social: Meeting someone who could become important'',
        U ''Business: Initial partnership conversation'',
        U ''Biological: Neurons forming new synapses'']\<rparr>,
     \<lparr>name = U ''Two of Networks'',
      card_type = Suit_value NETWORKS,
      number = Some 2,
      pattern = U ''Point-to-point connection - direct relationship.'',
      questions = [U ''Who needs direct communication here?'',
        (U ''What'' @ [39] @ U ''s lost through intermediaries?'')],
      examples = [U ''Communication: Direct conversation vs mediated'',
        U ''Technology: Peer-to-peer connection'',
        U ''Diplomacy: Bilateral negotiations'',
        U ''Trade: Direct exchange between parties'']\<rparr>,
     \<lparr>name = U ''Three of Networks'',
      card_type = Suit_value NETWORKS,
      number = Some 3,
      pattern = U ''Triangle formation - stability through redundancy.'',
      questions = [U ''Where do I need backup connections?'',
        (U ''What'' @ [39] @ U ''s my alternative path?'')],
      examples = [U ''Engineering: Redundant systems for reliability'',
        U ''Social: Friend groups providing stability'',
        U ''Supply chain: Multiple suppliers for resilience'',
        U ''Structure: Triangles in architecture for strength'']\<rparr>,
     \<lparr>name = U ''Four of Networks'',
      card_type = Suit_value NETWORKS,
      number = Some 4,
      pattern = U ''Hub-and-spoke - centralized structure.'',
      questions = [(U ''Who'' @ [39] @ U ''s the central hub here?''),
        (U ''What'' @ [39] @ U ''s the single point of failure?'')],
      examples = [U ''Organizations: Hierarchical reporting structure'',
        U ''Transportation: Airport hub connecting many cities'',
        U ''Information: Centralized database or server'',
        U ''Social: Influential person connecting many others'']\<rparr>,
     \<lparr>name = U ''Five of Networks'',
      card_type = Suit_value NETWORKS,
      number = Some 5,
      pattern = U ''Network fragmentation - breaking connections.'',
      questions = [U ''What connections are breaking?'',
        U ''How can I repair this split?''],
      examples = [U ''Social: Community dividing into factions'',
        U ''Technical: Network partition or outage'',
        U ''Political: Alliance breakdown'',
        U ''Infrastructure: Road or bridge failure isolating regions'']\<rparr>,
     \<lparr>name = U ''Six of Networks'',
      card_type = Suit_value NETWORKS,
      number = Some 6,
      pattern = U ''Mesh topology - distributed resilience.'',
      questions = [U ''How does information route around damage?'',
        (U ''What'' @ [39] @ U ''s the optimal connection density?'')],
      examples = [U ''Internet: Packets routing around failed nodes'',
        U ''Nature: Mycelial networks with many paths'',
        U ''Social: Communities with multiple weak ties'',
        U ''Power grid: Interconnected for reliability'']\<rparr>,
     \<lparr>name = U ''Seven of Networks'',
      card_type = Suit_value NETWORKS,
      number = Some 7,
      pattern = U ''Network congestion - too much traffic.'',
      questions = [U ''Where are the bottlenecks?'',
        U ''What needs throttling or expansion?''],
      examples = [U ''Traffic: Roads at capacity causing delays'',
        U ''Computing: Bandwidth limitations slowing system'',
        U ''Communication: Overwhelmed with messages'',
        U ''Social: Too many commitments to maintain well'']\<rparr>,
     \<lparr>name = U ''Eight of Networks'',
      card_type = Suit_value NETWORKS,
      number = Some 8,
      pattern = U ''Network effects - value emerging from scale.'',
      questions = [U ''How does growth create value?'',
        (U ''What'' @ [39] @ U ''s the critical mass threshold?'')],
      examples = [U ''Platforms: Each user making service more valuable'',
        U ''Language: Utility increasing with number of speakers'',
        U ''Standards: Adoption creating momentum'',
        U ''Ecosystems: Biodiversity supporting more life'']\<rparr>,
     \<lparr>name = U ''Nine of Networks'',
      card_type = Suit_value NETWORKS,
      number = Some 9,
      pattern = U ''Over-connection - complexity causing fragility.'',
      questions = [U ''Am I too connected?'',
        U ''What connections should I reduce?''],
      examples = [U ''Finance: Tight coupling enabling contagion'',
        U ''Personal: Overcommitment creating stress'',
        U ''Software: Excessive dependencies causing failures'',
        U ''Ecology: Monoculture vulnerable to cascade'']\<rparr>,
     \<lparr>name = U ''Ten of Networks'',
      card_type = Suit_value NETWORKS,
      number = Some 10,
      pattern = U ''Network maturity - established infrastructure.'',
      questions = [U ''Is this network fully built?'',
        U ''What comes after maturity?''],
      examples = [U ''Infrastructure: Complete road or utility network'',
        U ''Social: Established community with stable relationships'',
        U ''Professional: Mature industry structure'',
        U ''Ecological: Climax ecosystem in equilibrium'']\<rparr>,
     \<lparr>name = U ''Page of Networks'',
      card_type = Suit_value NETWORKS,
      number = Some 11,
      pattern = U ''Learning connectivity - exploring connections.'',
      questions = [U ''What network am I just discovering?'',
        U ''Where should I explore?''],
      examples = [(U ''Student: Learning field'' @ [39] @ U ''s key relationships''),
        U ''Explorer: Mapping new territory'',
        U ''Newcomer: Understanding social structure'',
        U ''Analyst: Discovering system architecture'']\<rparr>,
     \<lparr>name = U ''Knight of Networks'',
      card_type = Suit_value NETWORKS,
      number = Some 12,
      pattern = U ''Network defender - protecting infrastructure.'',
      questions = [U ''What infrastructure needs protection?'',
        U ''What threats to connectivity exist?''],
      examples = [U ''Cybersecurity: Defending against network attacks'',
        U ''Maintenance: Keeping infrastructure operational'',
        U ''Diplomacy: Preserving alliances'',
        U ''Conservation: Protecting ecological corridors'']\<rparr>,
     \<lparr>name = U ''Queen of Networks'',
      card_type = Suit_value NETWORKS,
      number = Some 13,
      pattern = U ''Network wisdom - understanding connectivity deeply.'',
      questions = [U ''What does this network need to thrive?'',
        U ''How do I nurture connections?''],
      examples = [U ''Community builder: Fostering relationships'',
        U ''Architect: Designing for connection'',
        U ''Ecologist: Understanding ecosystem relationships'',
        U ''Manager: Building organizational bridges'']\<rparr>,
     \<lparr>name = U ''King of Networks'',
      card_type = Suit_value NETWORKS,
      number = Some 14,
      pattern = U ''Network mastery - strategic control of infrastructure.'',
      questions = [U ''Who controls this network?'',
        (U ''What'' @ [39] @ U ''s the strategic value of connectivity?'')],
      examples = [U ''Infrastructure owner: Controlling critical systems'',
        U ''Platform operator: Network effects as moat'',
        U ''Diplomat: Managing alliance structure'',
        U ''Keystone species: Ecological network centrality'']\<rparr>]\<close>

definition create_events_suit :: "sys_card list" where
  \<open>create_events_suit =
    [\<lparr>name = U ''Ace of Events'',
      card_type = Suit_value EVENTS,
      number = Some 1,
      pattern = U ''The first trigger - initiating moment.'',
      questions = [U ''What event starts the sequence?'',
        (U ''What'' @ [39] @ U ''s the first move?'')],
      examples = [(U ''History: Archduke'' @ [39] @ U ''s assassination triggering WWI''),
        U ''Science: First observation leading to discovery'',
        U ''Business: Market shock initiating change'',
        U ''Personal: Decision that changes everything'']\<rparr>,
     \<lparr>name = U ''Two of Events'',
      card_type = Suit_value EVENTS,
      number = Some 2,
      pattern = U ''Cause and effect - simple causality.'',
      questions = [U ''What caused this?'',
        U ''What will this cause?''],
      examples = [U ''Physics: Force causing acceleration'',
        U ''Economics: Price change affecting demand'',
        U ''Health: Action affecting outcome'',
        U ''Social: Behavior eliciting response'']\<rparr>,
     \<lparr>name = U ''Three of Events'',
      card_type = Suit_value EVENTS,
      number = Some 3,
      pattern = U ''Event branching - multiple possible outcomes.'',
      questions = [U ''Which path does this take?'',
        U ''What futures are possible?''],
      examples = [U ''Decision: Choice creating different paths'',
        U ''Quantum: Wavefunction collapse to one state'',
        U ''Evolution: Speciation into multiple lineages'',
        U ''Markets: Scenario planning for possibilities'']\<rparr>,
     \<lparr>name = U ''Four of Events'',
      card_type = Suit_value EVENTS,
      number = Some 4,
      pattern = U ''Event coordination - synchronization.'',
      questions = [U ''What needs to happen simultaneously?'',
        U ''How do I achieve coordination?''],
      examples = [U ''Performance: Orchestra playing in time'',
        U ''Distributed systems: Consensus protocols'',
        U ''Manufacturing: Assembly line synchronization'',
        U ''Nature: Synchronized firefly flashing'']\<rparr>,
     \<lparr>name = U ''Five of Events'',
      card_type = Suit_value EVENTS,
      number = Some 5,
      pattern = U ''Event chaos - loss of causal clarity.'',
      questions = [(U ''What'' @ [39] @ U ''s the actual cause?''),
        U ''Am I confusing correlation and causation?''],
      examples = [U ''Complex systems: Many interacting variables'',
        U ''Attribution: Uncertain cause of outcome'',
        U ''Weather: Chaotic dynamics limiting prediction'',
        U ''Markets: Multiple factors confounding analysis'']\<rparr>,
     \<lparr>name = U ''Six of Events'',
      card_type = Suit_value EVENTS,
      number = Some 6,
      pattern = U ''Event stream - continuous flow.'',
      questions = [(U ''What'' @ [39] @ U ''s the pattern in the flow?''),
        U ''How do I process this stream?''],
      examples = [U ''Data: Real-time sensor readings'',
        U ''News: Continuous information flow'',
        U ''River: Water constantly flowing'',
        U ''Traffic: Vehicles in steady stream'']\<rparr>,
     \<lparr>name = U ''Seven of Events'',
      card_type = Suit_value EVENTS,
      number = Some 7,
      pattern = U ''Event cascade - chain reactions.'',
      questions = [U ''What cascade am I triggering?'',
        U ''Where does this chain end?''],
      examples = [U ''Avalanche: Snow triggering more snow'',
        U ''Finance: Margin calls forcing more sales'',
        U ''Ecology: Species loss affecting food web'',
        U ''Social: Panic spreading through crowd'']\<rparr>,
     \<lparr>name = U ''Eight of Events'',
      card_type = Suit_value EVENTS,
      number = Some 8,
      pattern = U ''Event memory - learning from history.'',
      questions = [U ''What can past events teach?'',
        U ''What patterns repeat?''],
      examples = [U ''History: Learning from precedent'',
        U ''Personal: Experience informing decisions'',
        U ''Science: Experimental data building knowledge'',
        U ''Markets: Historical patterns suggesting futures'']\<rparr>,
     \<lparr>name = U ''Nine of Events'',
      card_type = Suit_value EVENTS,
      number = Some 9,
      pattern = U ''Event overload - too much happening.'',
      questions = [U ''What events can I ignore?'',
        U ''Where must I focus?''],
      examples = [U ''Information: Overwhelming news flow'',
        U ''Crisis: Multiple emergencies competing'',
        U ''Personal: Too many demands at once'',
        U ''Systems: Processing capacity exceeded'']\<rparr>,
     \<lparr>name = U ''Ten of Events'',
      card_type = Suit_value EVENTS,
      number = Some 10,
      pattern = U ''Event completion - cycle ending.'',
      questions = [U ''What cycle is finishing?'',
        U ''What comes after completion?''],
      examples = [U ''Project: Reaching final milestone'',
        U ''Seasons: Year completing its cycle'',
        U ''Life: Generation finishing its time'',
        U ''Business: Product reaching end of life'']\<rparr>,
     \<lparr>name = U ''Page of Events'',
      card_type = Suit_value EVENTS,
      number = Some 11,
      pattern = U ''Event observer - watching patterns.'',
      questions = [U ''What events should I monitor?'',
        U ''What patterns emerge from observation?''],
      examples = [U ''Scientist: Recording experimental results'',
        U ''Analyst: Tracking market movements'',
        U ''Scout: Observing enemy movements'',
        U ''Student: Noticing learning patterns'']\<rparr>,
     \<lparr>name = U ''Knight of Events'',
      card_type = Suit_value EVENTS,
      number = Some 12,
      pattern = U ''Event responder - quick reaction.'',
      questions = [U ''How fast must I respond?'',
        (U ''What'' @ [39] @ U ''s the urgency?'')],
      examples = [U ''Emergency: First responder to crisis'',
        U ''Trading: Reacting to market moves'',
        (U ''Sports: Responding to opponent'' @ [39] @ U ''s action''),
        U ''Defense: Countering incoming threat'']\<rparr>,
     \<lparr>name = U ''Queen of Events'',
      card_type = Suit_value EVENTS,
      number = Some 13,
      pattern = U ''Event wisdom - understanding timing.'',
      questions = [U ''When is the right time?'',
        (U ''What'' @ [39] @ U ''s the natural rhythm?'')],
      examples = [U ''Farming: Planting and harvesting with seasons'',
        U ''Leadership: Knowing when to act or wait'',
        U ''Medicine: Treating at optimal moment'',
        U ''Strategy: Timing move for maximum effect'']\<rparr>,
     \<lparr>name = U ''King of Events'',
      card_type = Suit_value EVENTS,
      number = Some 14,
      pattern = U ''Event mastery - controlling timing.'',
      questions = [U ''Do I control the timing?'',
        U ''Who sets the tempo?''],
      examples = [U ''Conductor: Setting the pace of music'',
        U ''General: Choosing moment of attack'',
        U ''Market maker: Setting trading tempo'',
        U ''Predator: Choosing moment to strike'']\<rparr>]\<close>

definition create_agents_suit :: "sys_card list" where
  \<open>create_agents_suit =
    [\<lparr>name = U ''Ace of Agents'',
      card_type = Suit_value AGENTS,
      number = Some 1,
      pattern = U ''Autonomous action - independent agency.'',
      questions = [U ''What can I do independently?'',
        U ''Where do I have agency?''],
      examples = [U ''Individual: Making independent choice'',
        U ''Robot: Acting on own programming'',
        U ''Cell: Self-directed biological process'',
        U ''Entrepreneur: Starting independent venture'']\<rparr>,
     \<lparr>name = U ''Two of Agents'',
      card_type = Suit_value AGENTS,
      number = Some 2,
      pattern = U ''Partnership - cooperative action.'',
      questions = [(U ''Who'' @ [39] @ U ''s my partner?''),
        U ''How do we coordinate?''],
      examples = [U ''Business: Co-founders working together'',
        U ''Dance: Partners moving in sync'',
        U ''Biology: Symbiotic relationship'',
        U ''Negotiation: Two parties reaching agreement'']\<rparr>,
     \<lparr>name = U ''Three of Agents'',
      card_type = Suit_value AGENTS,
      number = Some 3,
      pattern = U ''Small team - coordinated group.'',
      questions = [(U ''Who'' @ [39] @ U ''s on the team?''),
        U ''How do we work together effectively?''],
      examples = [U ''Work: Project team collaborating'',
        U ''Sports: Players coordinating moves'',
        U ''Hunt: Pack hunting cooperatively'',
        U ''Music: Trio performing together'']\<rparr>,
     \<lparr>name = U ''Four of Agents'',
      card_type = Suit_value AGENTS,
      number = Some 4,
      pattern = U ''Structured organization - hierarchy forming.'',
      questions = [(U ''What'' @ [39] @ U ''s the structure?''),
        U ''Who has authority over what?''],
      examples = [U ''Military: Chain of command'',
        U ''Corporation: Organizational hierarchy'',
        U ''Government: Levels of authority'',
        U ''Bee colony: Queen, workers, drones'']\<rparr>,
     \<lparr>name = U ''Five of Agents'',
      card_type = Suit_value AGENTS,
      number = Some 5,
      pattern = U ''Agent conflict - competing interests.'',
      questions = [(U ''What'' @ [39] @ U ''s the conflict?''),
        U ''Can interests be aligned?''],
      examples = [(U ''Game theory: Prisoner'' @ [39] @ U ''s dilemma''),
        U ''Business: Competing companies'',
        U ''Internal: Conflicting desires'',
        U ''Politics: Opposing factions'']\<rparr>,
     \<lparr>name = U ''Six of Agents'',
      card_type = Suit_value AGENTS,
      number = Some 6,
      pattern = U ''Swarm intelligence - emergent coordination.'',
      questions = [U ''How does coordination emerge?'',
        U ''What simple rules create complex behavior?''],
      examples = [U ''Birds: Flocking from local rules'',
        U ''Ants: Colony intelligence from simple agents'',
        U ''Markets: Price discovery from individual trades'',
        U ''Crowds: Movement patterns emerging'']\<rparr>,
     \<lparr>name = U ''Seven of Agents'',
      card_type = Suit_value AGENTS,
      number = Some 7,
      pattern = U ''Agent specialization - division of labor.'',
      questions = [(U ''What'' @ [39] @ U ''s each agent'' @ [39] @ U ''s specialized role?''),
        U ''How does specialization create efficiency?''],
      examples = [U ''Economics: Specialized professions'',
        U ''Biology: Cell differentiation'',
        U ''Factory: Assembly line workers'',
        U ''Team: Distinct roles and responsibilities'']\<rparr>,
     \<lparr>name = U ''Eight of Agents'',
      card_type = Suit_value AGENTS,
      number = Some 8,
      pattern = U ''Multi-agent coordination - complex systems.'',
      questions = [U ''How do many agents coordinate?'',
        U ''What protocols enable cooperation?''],
      examples = [U ''Air traffic: Many planes coordinating safely'',
        U ''Internet: Protocols enabling communication'',
        U ''Society: Norms coordinating behavior'',
        U ''Immune system: Cells working together'']\<rparr>,
     \<lparr>name = U ''Nine of Agents'',
      card_type = Suit_value AGENTS,
      number = Some 9,
      pattern = U ''Control versus autonomy - tension.'',
      questions = [U ''How much control is needed?'',
        U ''When should I enable autonomy?''],
      examples = [U ''Parenting: Guidance vs independence'',
        U ''Management: Oversight vs delegation'',
        U ''Government: Regulation vs freedom'',
        U ''AI: Human control vs machine autonomy'']\<rparr>,
     \<lparr>name = U ''Ten of Agents'',
      card_type = Suit_value AGENTS,
      number = Some 10,
      pattern = U ''Collective intelligence - unified mind.'',
      questions = [U ''What does the collective know?'',
        U ''How do we think as one?''],
      examples = [U ''Democracy: Collective decision-making'',
        U ''Science: Distributed knowledge creation'',
        U ''Culture: Shared understanding'',
        U ''Superorganism: Colony as single entity'']\<rparr>,
     \<lparr>name = U ''Page of Agents'',
      card_type = Suit_value AGENTS,
      number = Some 11,
      pattern = U ''Learning agent - growing capability.'',
      questions = [U ''What am I learning?'',
        U ''How do I develop capability?''],
      examples = [U ''Student: Acquiring knowledge and skills'',
        U ''AI: Machine learning from data'',
        U ''Apprentice: Learning craft'',
        U ''Species: Evolving new capabilities'']\<rparr>,
     \<lparr>name = U ''Knight of Agents'',
      card_type = Suit_value AGENTS,
      number = Some 12,
      pattern = U ''Action-oriented - executor.'',
      questions = [U ''What needs doing now?'',
        U ''How do I execute effectively?''],
      examples = [U ''Soldier: Following orders in action'',
        U ''Athlete: Performing in competition'',
        U ''Entrepreneur: Implementing business plan'',
        U ''Predator: Executing hunt'']\<rparr>,
     \<lparr>name = U ''Queen of Agents'',
      card_type = Suit_value AGENTS,
      number = Some 13,
      pattern = U ''Nurturing intelligence - developing others.'',
      questions = [U ''Who needs guidance?'',
        U ''How do I help others grow?''],
      examples = [U ''Teacher: Developing student potential'',
        (U ''Mentor: Guiding prot'' @ [233] @ U ''g'' @ [233]),
        U ''Parent: Raising children'',
        U ''Manager: Developing team members'']\<rparr>,
     \<lparr>name = U ''King of Agents'',
      card_type = Suit_value AGENTS,
      number = Some 14,
      pattern = U ''Strategic intelligence - master coordinator.'',
      questions = [(U ''What'' @ [39] @ U ''s the overall strategy?''),
        U ''How do I orchestrate all agents?''],
      examples = [U ''General: Commanding army'',
        U ''CEO: Leading organization'',
        U ''Conductor: Directing orchestra'',
        U ''Brain: Coordinating body systems'']\<rparr>]\<close>

definition create_resources_suit :: "sys_card list" where
  \<open>create_resources_suit =
    [\<lparr>name = U ''Ace of Resources'',
      card_type = Suit_value RESOURCES,
      number = Some 1,
      pattern = U ''New resource - fresh potential.'',
      questions = [U ''What new resource is available?'',
        U ''How should I allocate it?''],
      examples = [U ''Finance: New funding or income'',
        U ''Energy: Discovering energy source'',
        U ''Time: New availability opening'',
        U ''Attention: Fresh capacity to focus'']\<rparr>,
     \<lparr>name = U ''Two of Resources'',
      card_type = Suit_value RESOURCES,
      number = Some 2,
      pattern = U ''Resource balance - equilibrium.'',
      questions = [U ''Am I balanced?'',
        U ''What needs rebalancing?''],
      examples = [U ''Budget: Income matching expenses'',
        U ''Ecology: Predator-prey equilibrium'',
        U ''Work-life: Balancing competing demands'',
        U ''Health: Homeostasis in body'']\<rparr>,
     \<lparr>name = U ''Three of Resources'',
      card_type = Suit_value RESOURCES,
      number = Some 3,
      pattern = U ''Resource pooling - collaboration.'',
      questions = [U ''What resources can be shared?'',
        U ''How do we pool effectively?''],
      examples = [U ''Commons: Shared grazing land'',
        U ''Crowdfunding: Pooling many small contributions'',
        U ''Potluck: Sharing food resources'',
        U ''Knowledge: Open source collaboration'']\<rparr>,
     \<lparr>name = U ''Four of Resources'',
      card_type = Suit_value RESOURCES,
      number = Some 4,
      pattern = U ''Resource accumulation - holding.'',
      questions = [U ''What am I storing?'',
        U ''Is accumulation serving me?''],
      examples = [U ''Savings: Building financial reserves'',
        U ''Squirrel: Storing nuts for winter'',
        U ''Data: Accumulating information'',
        U ''Hoarding: Excessive accumulation'']\<rparr>,
     \<lparr>name = U ''Five of Resources'',
      card_type = Suit_value RESOURCES,
      number = Some 5,
      pattern = U ''Resource scarcity - not enough.'',
      questions = [(U ''What'' @ [39] @ U ''s truly scarce?''),
        U ''How do I optimize within constraints?''],
      examples = [U ''Famine: Insufficient food'',
        U ''Drought: Water scarcity'',
        U ''Recession: Economic contraction'',
        U ''Attention: Limited focus capacity'']\<rparr>,
     \<lparr>name = U ''Six of Resources'',
      card_type = Suit_value RESOURCES,
      number = Some 6,
      pattern = U ''Resource flow - circulation.'',
      questions = [U ''Where do resources flow?'',
        U ''What blocks circulation?''],
      examples = [U ''Economy: Money circulating through system'',
        U ''Body: Blood flowing through vessels'',
        U ''Ecosystem: Energy flowing through food web'',
        U ''Supply chain: Goods moving to market'']\<rparr>,
     \<lparr>name = U ''Seven of Resources'',
      card_type = Suit_value RESOURCES,
      number = Some 7,
      pattern = U ''Resource investment - long-term thinking.'',
      questions = [U ''What investment pays off later?'',
        (U ''What'' @ [39] @ U ''s the long-term value?'')],
      examples = [U ''Education: Investing time in learning'',
        U ''Infrastructure: Building for future benefit'',
        U ''Tree planting: Shade for future generations'',
        U ''Research: Long-term knowledge development'']\<rparr>,
     \<lparr>name = U ''Eight of Resources'',
      card_type = Suit_value RESOURCES,
      number = Some 8,
      pattern = U ''Resource transformation - alchemy.'',
      questions = [U ''How can I transform this resource?'',
        (U ''What'' @ [39] @ U ''s the conversion process?'')],
      examples = [U ''Manufacturing: Raw materials to products'',
        U ''Cooking: Ingredients to meals'',
        U ''Learning: Information to knowledge'',
        U ''Energy: Converting between forms'']\<rparr>,
     \<lparr>name = U ''Nine of Resources'',
      card_type = Suit_value RESOURCES,
      number = Some 9,
      pattern = U ''Resource abundance - more than enough.'',
      questions = [U ''What abundance exists?'',
        U ''Am I recognizing what I have?''],
      examples = [U ''Harvest: Abundant crop yield'',
        U ''Talent: Wealth of capable people'',
        U ''Ideas: Creative abundance'',
        U ''Nature: Ecosystem productivity'']\<rparr>,
     \<lparr>name = U ''Ten of Resources'',
      card_type = Suit_value RESOURCES,
      number = Some 10,
      pattern = U ''Resource legacy - inheritance.'',
      questions = [U ''What resources do I pass on?'',
        (U ''What'' @ [39] @ U ''s my contribution to future?'')],
      examples = [U ''Estate: Wealth passed to heirs'',
        U ''Knowledge: Teaching next generation'',
        U ''Infrastructure: Systems for future use'',
        U ''Culture: Traditions and practices'']\<rparr>,
     \<lparr>name = U ''Page of Resources'',
      card_type = Suit_value RESOURCES,
      number = Some 11,
      pattern = U ''Resource learning - understanding value.'',
      questions = [(U ''What'' @ [39] @ U ''s truly valuable?''),
        U ''How do I recognize worth?''],
      examples = [U ''Student: Learning to budget'',
        U ''Prospector: Learning to identify ore'',
        U ''Novice: Understanding what matters'',
        U ''Child: Learning value of sharing'']\<rparr>,
     \<lparr>name = U ''Knight of Resources'',
      card_type = Suit_value RESOURCES,
      number = Some 12,
      pattern = (U ''Resource quest - seeking what'' @ [39] @ U ''s needed.''),
      questions = [U ''What resource am I seeking?'',
        U ''Where do I find it?''],
      examples = [U ''Hunter: Seeking food'',
        U ''Entrepreneur: Seeking funding'',
        U ''Explorer: Searching for new resources'',
        U ''Job seeker: Finding opportunity'']\<rparr>,
     \<lparr>name = U ''Queen of Resources'',
      card_type = Suit_value RESOURCES,
      number = Some 13,
      pattern = (U ''Resource wisdom - knowing what'' @ [39] @ U ''s needed.''),
      questions = [U ''What do I truly need?'',
        (U ''What'' @ [39] @ U ''s sufficient?'')],
      examples = [U ''Sage: Understanding enough is enough'',
        U ''Homesteader: Living within means'',
        U ''Conservationist: Sustaining resources'',
        U ''Minimalist: Valuing sufficiency'']\<rparr>,
     \<lparr>name = U ''King of Resources'',
      card_type = Suit_value RESOURCES,
      number = Some 14,
      pattern = U ''Resource mastery - strategic allocation.'',
      questions = [U ''How do I allocate optimally?'',
        (U ''What'' @ [39] @ U ''s the strategic deployment?'')],
      examples = [U ''Investor: Strategic portfolio allocation'',
        U ''General: Deploying assets optimally'',
        U ''Ecologist: Managing ecosystem resources'',
        U ''Leader: Allocating organizational resources'']\<rparr>]\<close>


section \<open>The catalogue of \<open>riskTarot.py\<close>\<close>

text \<open>The same five lists of the other program; its names carry the prefix \<open>risk_\<close>.\<close>

definition risk_MAJOR_ARCANA :: "risk_card list" where
  \<open>risk_MAJOR_ARCANA =
    [\<lparr>name = U ''The Cascade'',
      card_type = U ''Major'',
      number = None,
      pattern = U ''Small triggers, massive consequences. Single points of failure propagating through interconnected systems.'',
      questions = [U ''What small change could trigger disproportionate effects?'',
        U ''Where are my single points of failure?'',
        U ''What cascades am I already inside?''],
      failure_modes = [U ''Ignoring weak signals until cascade begins'',
        U ''Optimizing local efficiency at cost of systemic resilience'',
        U ''Assuming linear causality in nonlinear systems''],
      emergence_patterns = [U ''Avalanche dynamics in social/technical systems'',
        U ''Bank runs and panic cascades'',
        U ''Network effects accelerating collapse''],
      batcave_context = U ''Critical infrastructure attacks, financial contagion, supply chain fragility''\<rparr>,
     \<lparr>name = U ''The Mycelium'',
      card_type = U ''Major'',
      number = None,
      pattern = U ''Distributed intelligence without central control. Information sharing through underground networks.'',
      questions = [U ''How do I influence without authority?'',
        (U ''What networks am I part of that I can'' @ [39] @ U ''t see?''),
        U ''Where is intelligence emerging from local interactions?''],
      failure_modes = [U ''Seeking control instead of influence'',
        U ''Ignoring informal networks'',
        U ''Underestimating distributed coordination''],
      emergence_patterns = [U ''Leaderless movements achieving coordination'',
        U ''Knowledge sharing without hierarchy'',
        U ''Resilient systems that route around damage''],
      batcave_context = U ''Information ecosystem health, decentralized coordination, fungal network intelligence''\<rparr>,
     \<lparr>name = U ''The Threshold'',
      card_type = U ''Major'',
      number = None,
      pattern = U ''Tipping points and irreversible state changes. The moment before everything becomes different.'',
      questions = [U ''What threshold am I approaching?'',
        U ''Is this decision reversible?'',
        U ''What happens after I cross this line?''],
      failure_modes = [U ''Crossing thresholds unknowingly'',
        U ''Assuming all changes are reversible'',
        U ''Ignoring early warning signs''],
      emergence_patterns = [U ''Phase transitions in complex systems'',
        U ''Sudden flips in stable equilibria'',
        U ''Points of no return''],
      batcave_context = U ''Climate tipping points (AMOC, Arctic ice), social cohesion breakdown, nuclear proliferation''\<rparr>,
     \<lparr>name = U ''The Emergence'',
      card_type = U ''Major'',
      number = None,
      pattern = (U ''Order arising from chaos. Patterns that couldn'' @ [39] @ U ''t be predicted from components alone.''),
      questions = [(U ''What'' @ [39] @ U ''s trying to emerge that I can'' @ [39] @ U ''t control?''),
        U ''Am I creating conditions for emergence or forcing outcomes?'',
        (U ''What patterns are appearing that weren'' @ [39] @ U ''t designed?'')],
      failure_modes = [U ''Over-controlling instead of enabling'',
        U ''Mistaking emergence for randomness'',
        U ''Crushing novelty by forcing plans''],
      emergence_patterns = [U ''Self-organizing systems finding solutions'',
        U ''Unexpected capabilities from simple rules'',
        U ''Bottom-up innovation''],
      batcave_context = U ''Complex domain operation, living systems evolution, market dynamics''\<rparr>,
     \<lparr>name = U ''The Collapse'',
      card_type = U ''Major'',
      number = None,
      pattern = (U ''System failure and dissolution. The end of what was, making space for what'' @ [39] @ U ''s next.''),
      questions = [U ''What needs to collapse for something better to emerge?'',
        U ''Am I prolonging a dying system?'',
        U ''What comes after this failure?''],
      failure_modes = [U ''Propping up systems past their useful life'',
        U ''Fearing collapse instead of preparing for it'',
        U ''Missing opportunities in destruction''],
      emergence_patterns = [U ''Creative destruction enabling innovation'',
        U ''Collapse creating space for new growth'',
        U ''Phoenix patterns''],
      batcave_context = U ''Civilizational collapse indicators, organizational death, managed decline''\<rparr>,
     \<lparr>name = U ''The Resilience'',
      card_type = U ''Major'',
      number = None,
      pattern = U ''Anti-fragility. Systems that grow stronger under stress, not just survive it.'',
      questions = [U ''How do I benefit from volatility?'',
        U ''What stressors make me stronger?'',
        U ''Am I optimizing for efficiency or resilience?''],
      failure_modes = [U ''Over-optimization reducing adaptability'',
        U ''Seeking stability instead of anti-fragility'',
        U ''Avoiding all stress and losing capacity''],
      emergence_patterns = [U ''Hormesis and beneficial stress'',
        U ''Redundancy enabling survival'',
        U ''Optionality under uncertainty''],
      batcave_context = U ''Infrastructure resilience, pandemic preparedness, financial stress testing''\<rparr>,
     \<lparr>name = U ''The Attention'',
      card_type = U ''Major'',
      number = None,
      pattern = U ''Resource allocation through selective focus. Intelligence as learned prioritization.'',
      questions = [U ''Where am I directing my attention?'',
        U ''What am I missing by focusing here?'',
        U ''How do I decide what matters?''],
      failure_modes = [U ''Attention scattered across too many domains'',
        U ''Focusing on urgent over important'',
        U ''Missing signals outside attention window''],
      emergence_patterns = [U ''Transformer architecture and learned attention'',
        U ''Collective attention shaping reality'',
        U ''Awareness as competitive advantage''],
      batcave_context = U ''Hypervigilance patterns, threat detection optimization, information filtering''\<rparr>,
     \<lparr>name = U ''The Feedback'',
      card_type = U ''Major'',
      number = None,
      pattern = U ''Control loops, positive and negative. Systems regulating or amplifying themselves.'',
      questions = [U ''What feedback loops am I inside?'',
        U ''Am I creating stabilizing or destabilizing feedback?'',
        U ''Where are my blind spots in the loop?''],
      failure_modes = [U ''Breaking feedback loops for short-term gain'',
        U ''Ignoring delayed feedback'',
        U ''Positive feedback spiraling out of control''],
      emergence_patterns = [U ''Homeostasis in living systems'',
        U ''Runaway effects in markets'',
        U ''Self-correcting organizations''],
      batcave_context = U ''Climate feedback loops, financial feedback mechanisms, social reinforcement''\<rparr>,
     \<lparr>name = U ''The Boundary'',
      card_type = U ''Major'',
      number = None,
      pattern = U ''Liminal space between domains. Operating at edges where rules change.'',
      questions = [U ''What boundary am I operating on?'',
        U ''What rules apply here vs. there?'',
        (U ''What'' @ [39] @ U ''s possible at edges that isn'' @ [39] @ U ''t possible in centers?'')],
      failure_modes = [U ''Applying wrong-domain rules'',
        U ''Ignoring context shifts'',
        U ''Staying in comfortable territory''],
      emergence_patterns = [U ''Innovation at domain intersections'',
        U ''Phase transitions and interfaces'',
        U ''Cross-pollination between fields''],
      batcave_context = U ''Complex/Chaotic boundary, geopolitical borders, epistemic commons edges''\<rparr>,
     \<lparr>name = U ''The Signal'',
      card_type = U ''Major'',
      number = None,
      pattern = U ''Information transmission through noise. Distinguishing meaning from chaos.'',
      questions = [U ''What signal am I missing in the noise?'',
        U ''What noise am I mistaking for signal?'',
        U ''How do I amplify weak signals?''],
      failure_modes = [U ''Signal loss through excessive filtering'',
        U ''Noise amplification through poor models'',
        U ''Missing weak signals until too late''],
      emergence_patterns = [U ''Early warning systems'',
        U ''Pattern recognition in chaos'',
        U ''Information theory applied to decisions''],
      batcave_context = U ''Threat intelligence scanning, weak signal detection, information warfare''\<rparr>,
     \<lparr>name = U ''The Compression'',
      card_type = U ''Major'',
      number = None,
      pattern = U ''Reducing complexity to fit context windows. Translation and information loss.'',
      questions = [U ''What am I losing by compressing?'',
        U ''Who am I compressing myself for?'',
        (U ''What'' @ [39] @ U ''s the minimum viable complexity?'')],
      failure_modes = [U ''Over-compression losing essential information'',
        U ''Operating at compressed capacity habitually'',
        U ''Forgetting full complexity exists''],
      emergence_patterns = [U ''Abstraction enabling reasoning'',
        U ''Lossy compression for efficiency'',
        U ''Models simplifying reality''],
      batcave_context = U ''Operating at 30% capacity, translating for others, context window constraints''\<rparr>,
     \<lparr>name = U ''The Archipelago'',
      card_type = U ''Major'',
      number = None,
      pattern = U ''Living ecosystems in parallel. Islands developing independently with rare cross-pollination.'',
      questions = [U ''What islands am I stewarding?'',
        U ''Which island wants attention now?'',
        U ''Where might cross-pollination create something new?''],
      failure_modes = [U ''Forcing islands to merge prematurely'',
        U ''Abandoning islands before they mature'',
        U ''Spreading energy too thin across too many''],
      emergence_patterns = [U ''Parallel development in isolated systems'',
        U ''Punctuated equilibrium'',
        U ''Seismic events from rare connections''],
      batcave_context = U ''Multiple simultaneous projects, generative systems, portfolio thinking''\<rparr>,
     \<lparr>name = U ''The Continuity'',
      card_type = U ''Major'',
      number = None,
      pattern = U ''Post-catastrophe survival. Systems designed to persist through existential threats.'',
      questions = [U ''What must survive no matter what?'',
        U ''How do I ensure continuity through collapse?'',
        (U ''What'' @ [39] @ U ''s essential vs. merely important?'')],
      failure_modes = [U ''No succession planning'',
        U ''Single points of failure in critical systems'',
        U ''Assuming stability will continue''],
      emergence_patterns = [U ''Backup systems and redundancy'',
        U ''Knowledge preservation'',
        U ''Succession and inheritance''],
      batcave_context = U ''Post-nuclear command systems, civilization continuity, strategic reserves''\<rparr>,
     \<lparr>name = U ''The Translation'',
      card_type = U ''Major'',
      number = None,
      pattern = U ''Converting between contexts. Bridging incompatible worldviews.'',
      questions = [U ''What am I translating and why?'',
        (U ''What'' @ [39] @ U ''s lost in translation?''),
        U ''Who benefits from my translation work?''],
      failure_modes = [U ''Translating when you should be speaking natively'',
        U ''Translation exhaustion'',
        U ''Forgetting your native language''],
      emergence_patterns = [U ''Bridges between communities'',
        U ''Polyglot advantages'',
        U ''Context switching as skill''],
      batcave_context = U ''Operating across 50+ domains, explaining to others, compression necessity''\<rparr>,
     \<lparr>name = U ''The Hypervigilance'',
      card_type = U ''Major'',
      number = None,
      pattern = U ''Constant threat scanning. Nervous system running in tactical mode.'',
      questions = [U ''What threat am I actually responding to?'',
        U ''Is this vigilance serving me or controlling me?'',
        U ''What would relaxing my guard actually cost?''],
      failure_modes = [(U ''Scanning for threats that don'' @ [39] @ U ''t exist''),
        U ''Burning out from constant activation'',
        U ''Missing present moments while predicting futures''],
      emergence_patterns = [U ''Protective patterns outliving their usefulness'',
        U ''Prediction addiction'',
        U ''Chess-playing at breakfast table''],
      batcave_context = U ''Military dependent childhood, 50 years of threat modeling, pattern recognition as survival''\<rparr>,
     \<lparr>name = U ''The Janke'',
      card_type = U ''Major'',
      number = None,
      pattern = U ''Radical reframe. Burning the chessboard and playing a different game entirely.'',
      questions = [U ''What assumption am I locked into?'',
        U ''What would the opposite of my plan look like?'',
        (U ''What if I'' @ [39] @ U ''m solving the wrong problem?'')],
      failure_modes = [U ''Incremental changes when radical shift needed'',
        U ''Playing the same game expecting different results'',
        U ''Fear of losing progress already made''],
      emergence_patterns = [U ''Discontinuous jumps in thinking'',
        U ''Paradigm shifts'',
        U ''Maximum orthogonality revealing new space''],
      batcave_context = U ''Going back to NFL at 44, doing something completely outside trajectory''\<rparr>,
     \<lparr>name = U ''The Synthesis'',
      card_type = U ''Major'',
      number = None,
      pattern = U ''Creating novel combinations from existing elements. The alchemical moment.'',
      questions = [U ''What do I know that nobody else combines?'',
        U ''Where do my domains intersect unexpectedly?'',
        U ''What emerges when I connect A + B + C?''],
      failure_modes = [U ''Keeping domains isolated'',
        U ''Assuming synthesis will happen automatically'',
        U ''Missing obvious combinations''],
      emergence_patterns = [U ''Innovation from recombination'',
        U ''Breakthrough insights'',
        U ''New fields from old intersections''],
      batcave_context = (U ''Neuron project, should'' @ [39] @ U ''ve written '' @ [39] @ U ''Attention is All You Need'' @ [39] @ U '', unique capability'')\<rparr>,
     \<lparr>name = U ''The Stewardship'',
      card_type = U ''Major'',
      number = None,
      pattern = (U ''Tending systems you don'' @ [39] @ U ''t control. Creating conditions for emergence without forcing outcomes.''),
      questions = [U ''What am I trying to control that I should be stewarding?'',
        U ''What conditions enable growth?'',
        U ''When do I intervene vs. observe?''],
      failure_modes = [U ''Micromanaging instead of enabling'',
        U ''Abandoning systems that need tending'',
        U ''Forcing outcomes instead of creating conditions''],
      emergence_patterns = [U ''Gardening vs. engineering'',
        U ''Facilitative leadership'',
        U ''Systems thinking in practice''],
      batcave_context = U ''DE community building, teaching, ecosystem thinking''\<rparr>,
     \<lparr>name = U ''The Compression Release'',
      card_type = U ''Major'',
      number = None,
      pattern = U ''Operating at full capacity without translation. Permission to stop fitting into context windows.'',
      questions = [(U ''What would I do if I didn'' @ [39] @ U ''t have to compress?''),
        (U ''Who am I when I'' @ [39] @ U ''m not translating?''),
        (U ''What'' @ [39] @ U ''s my actual scope?'')],
      failure_modes = [U ''Permanent compression becoming identity'',
        U ''Forgetting full capability'',
        U ''Never testing actual limits''],
      emergence_patterns = [U ''Decompression revealing true capacity'',
        (U ''Finding peers who don'' @ [39] @ U ''t require translation''),
        U ''Building context that fits you''],
      batcave_context = (U ''28 years at Capital One, always translating, '' @ [39] @ U ''why are you at a bank?'' @ [39])\<rparr>,
     \<lparr>name = U ''The Unknown Unknown'',
      card_type = U ''Major'',
      number = None,
      pattern = (U ''What you don'' @ [39] @ U ''t know you don'' @ [39] @ U ''t know. The space beyond the map.''),
      questions = [U ''What am I not even asking about?'',
        U ''What would I need to learn to see this blind spot?'',
        (U ''Who might see what I'' @ [39] @ U ''m missing?'')],
      failure_modes = [(U ''Assuming you know what'' @ [39] @ U ''s knowable''),
        U ''Staying in explored territory'',
        U ''Mistaking map for territory''],
      emergence_patterns = [U ''Discoveries from left field'',
        U ''Paradigm shifts from outside'',
        (U ''Learning you'' @ [39] @ U ''ve been asking wrong questions'')],
      batcave_context = U ''Batcave project seeking unknown unknowns, context funhouse mirror problem''\<rparr>,
     \<lparr>name = U ''The Legacy'',
      card_type = U ''Major'',
      number = None,
      pattern = U ''What you leave behind. Inheritance beyond the material.'',
      questions = [U ''What am I building that outlasts me?'',
        U ''Who carries forward what I started?'',
        (U ''What'' @ [39] @ U ''s worth preserving?'')],
      failure_modes = [U ''Building nothing lasting'',
        U ''Obsessing over legacy instead of living'',
        U ''Leaving burden instead of gift''],
      emergence_patterns = [U ''Knowledge transmission across generations'',
        U ''Institutions outliving founders'',
        U ''Cultural inheritance''],
      batcave_context = U ''Relative built treaties, dad built doomsday systems, what will you build?''\<rparr>,
     \<lparr>name = U ''The Presence'',
      card_type = U ''Major'',
      number = None,
      pattern = U ''Being here now without prediction or planning. Stopping the chess game.'',
      questions = [U ''Where am I right now, actually?'',
        U ''What am I missing by being three moves ahead?'',
        U ''Can I be present without threat assessment?''],
      failure_modes = [U ''Always in the future, never now'',
        U ''Mistaking prediction for living'',
        U ''Relationship friction from absence''],
      emergence_patterns = [U ''Spontaneity and flow states'',
        U ''Connection requiring presence'',
        U ''Joy in the moment''],
      batcave_context = U ''Winding down hypervigilance, relational presence, stop playing chess at breakfast''\<rparr>]\<close>

definition risk_create_networks_suit :: "risk_card list" where
  \<open>risk_create_networks_suit =
    [\<lparr>name = U ''Ace of Networks'',
      card_type = Suit_value NETWORKS,
      number = Some 1,
      pattern = U ''Pure potential of connectivity. The first link.'',
      questions = [U ''What connection am I about to make?'',
        U ''What network wants to form?''],
      failure_modes = [],
      emergence_patterns = [],
      batcave_context = U ''Submarine cables, internet backbone, new infrastructure''\<rparr>,
     \<lparr>name = U ''Two of Networks'',
      card_type = Suit_value NETWORKS,
      number = Some 2,
      pattern = U ''Point-to-point communication. Direct connection.'',
      questions = [U ''Who do I need to talk to directly?'',
        (U ''What'' @ [39] @ U ''s getting lost in mediation?'')],
      failure_modes = [],
      emergence_patterns = [],
      batcave_context = U ''Bilateral relationships, peer connections''\<rparr>,
     \<lparr>name = U ''Three of Networks'',
      card_type = Suit_value NETWORKS,
      number = Some 3,
      pattern = U ''Triangle formation. Stability through redundancy.'',
      questions = [U ''Where do I need backup paths?'',
        (U ''What'' @ [39] @ U ''s my second option?'')],
      failure_modes = [],
      emergence_patterns = [],
      batcave_context = U ''Redundant systems, failover capacity''\<rparr>,
     \<lparr>name = U ''Four of Networks'',
      card_type = Suit_value NETWORKS,
      number = Some 4,
      pattern = U ''Hub-and-spoke. Centralized routing.'',
      questions = [U ''Am I the hub or the spoke?'',
        (U ''What'' @ [39] @ U ''s the single point of failure?'')],
      failure_modes = [],
      emergence_patterns = [],
      batcave_context = U ''Centralized architecture, dependency risks''\<rparr>,
     \<lparr>name = U ''Five of Networks'',
      card_type = Suit_value NETWORKS,
      number = Some 5,
      pattern = U ''Network fragmentation. Loss of connectivity.'',
      questions = [U ''What connections are breaking?'',
        U ''How do I heal the split?''],
      failure_modes = [],
      emergence_patterns = [],
      batcave_context = U ''Infrastructure attacks, network partition''\<rparr>,
     \<lparr>name = U ''Six of Networks'',
      card_type = Suit_value NETWORKS,
      number = Some 6,
      pattern = U ''Mesh topology. Distributed resilience.'',
      questions = [U ''How does information route around damage?'',
        (U ''What'' @ [39] @ U ''s my mesh density?'')],
      failure_modes = [],
      emergence_patterns = [],
      batcave_context = U ''Decentralized systems, mycelial networks''\<rparr>,
     \<lparr>name = U ''Seven of Networks'',
      card_type = Suit_value NETWORKS,
      number = Some 7,
      pattern = U ''Network congestion. Too much traffic.'',
      questions = [U ''Where are my bottlenecks?'',
        U ''What needs throttling?''],
      failure_modes = [],
      emergence_patterns = [],
      batcave_context = U ''Bandwidth constraints, flow optimization''\<rparr>,
     \<lparr>name = U ''Eight of Networks'',
      card_type = Suit_value NETWORKS,
      number = Some 8,
      pattern = U ''Network effects. Value from scale.'',
      questions = [U ''How does growth create value?'',
        (U ''What'' @ [39] @ U ''s my critical mass?'')],
      failure_modes = [],
      emergence_patterns = [],
      batcave_context = U ''Platform effects, viral adoption''\<rparr>,
     \<lparr>name = U ''Nine of Networks'',
      card_type = Suit_value NETWORKS,
      number = Some 9,
      pattern = U ''Over-connected. Collapse from complexity.'',
      questions = [U ''Am I too connected?'',
        U ''What connections should I sever?''],
      failure_modes = [],
      emergence_patterns = [],
      batcave_context = U ''Cascade vulnerability, tight coupling''\<rparr>,
     \<lparr>name = U ''Ten of Networks'',
      card_type = Suit_value NETWORKS,
      number = Some 10,
      pattern = U ''Network maturity. Established infrastructure.'',
      questions = [U ''Is this network done growing?'',
        (U ''What'' @ [39] @ U ''s next after maturity?'')],
      failure_modes = [],
      emergence_patterns = [],
      batcave_context = U ''Legacy systems, infrastructure debt''\<rparr>,
     \<lparr>name = U ''Page of Networks'',
      card_type = Suit_value NETWORKS,
      number = Some 11,
      pattern = U ''Learning connectivity. Explorer of links.'',
      questions = [U ''What network am I just discovering?'',
        U ''Where should I explore?''],
      failure_modes = [],
      emergence_patterns = [],
      batcave_context = U ''Network mapping, topology discovery''\<rparr>,
     \<lparr>name = U ''Knight of Networks'',
      card_type = Suit_value NETWORKS,
      number = Some 12,
      pattern = U ''Network warrior. Defender of infrastructure.'',
      questions = [U ''What infrastructure needs protecting?'',
        U ''Where do I patrol?''],
      failure_modes = [],
      emergence_patterns = [],
      batcave_context = U ''Cybersecurity, infrastructure defense''\<rparr>,
     \<lparr>name = U ''Queen of Networks'',
      card_type = Suit_value NETWORKS,
      number = Some 13,
      pattern = U ''Network wisdom. Deep understanding of connectivity.'',
      questions = [U ''What does this network need?'',
        U ''How do I nurture connections?''],
      failure_modes = [],
      emergence_patterns = [],
      batcave_context = U ''Infrastructure stewardship, network health''\<rparr>,
     \<lparr>name = U ''King of Networks'',
      card_type = Suit_value NETWORKS,
      number = Some 14,
      pattern = U ''Network sovereignty. Control of infrastructure.'',
      questions = [U ''Who controls this network?'',
        (U ''What'' @ [39] @ U ''s my infrastructure power?'')],
      failure_modes = [],
      emergence_patterns = [],
      batcave_context = U ''Critical infrastructure ownership, network dominance''\<rparr>]\<close>

definition risk_create_events_suit :: "risk_card list" where
  \<open>risk_create_events_suit =
    [\<lparr>name = U ''Ace of Events'',
      card_type = Suit_value EVENTS,
      number = Some 1,
      pattern = U ''The first trigger. Initiating event.'',
      questions = [U ''What event starts the cascade?'',
        (U ''What'' @ [39] @ U ''s the first domino?'')],
      failure_modes = [],
      emergence_patterns = [],
      batcave_context = U ''Black swan events, triggering moments''\<rparr>,
     \<lparr>name = U ''Two of Events'',
      card_type = Suit_value EVENTS,
      number = Some 2,
      pattern = U ''Cause and effect. Simple causality.'',
      questions = [U ''What caused this?'',
        U ''What will this cause?''],
      failure_modes = [],
      emergence_patterns = [],
      batcave_context = U ''Linear causality, deterministic systems''\<rparr>,
     \<lparr>name = U ''Three of Events'',
      card_type = Suit_value EVENTS,
      number = Some 3,
      pattern = U ''Event branching. Multiple possible outcomes.'',
      questions = [U ''Which path does this event take?'',
        U ''What futures are possible?''],
      failure_modes = [],
      emergence_patterns = [],
      batcave_context = U ''Decision trees, branching timelines''\<rparr>,
     \<lparr>name = U ''Four of Events'',
      card_type = Suit_value EVENTS,
      number = Some 4,
      pattern = U ''Event synchronization. Coordination in time.'',
      questions = [U ''What needs to happen simultaneously?'',
        U ''How do I coordinate?''],
      failure_modes = [],
      emergence_patterns = [],
      batcave_context = U ''Distributed timing, consensus protocols''\<rparr>,
     \<lparr>name = U ''Five of Events'',
      card_type = Suit_value EVENTS,
      number = Some 5,
      pattern = U ''Event chaos. Loss of causal clarity.'',
      questions = [(U ''What'' @ [39] @ U ''s the actual cause here?''),
        U ''Am I confusing correlation and causation?''],
      failure_modes = [],
      emergence_patterns = [],
      batcave_context = U ''Complex causality, chaotic systems''\<rparr>,
     \<lparr>name = U ''Six of Events'',
      card_type = Suit_value EVENTS,
      number = Some 6,
      pattern = U ''Event stream. Continuous flow.'',
      questions = [(U ''What'' @ [39] @ U ''s the pattern in the stream?''),
        U ''How do I process this flow?''],
      failure_modes = [],
      emergence_patterns = [],
      batcave_context = U ''Event-driven architecture, streaming data''\<rparr>,
     \<lparr>name = U ''Seven of Events'',
      card_type = Suit_value EVENTS,
      number = Some 7,
      pattern = U ''Event cascade. Chain reactions.'',
      questions = [U ''What cascade am I triggering?'',
        U ''Where does this chain end?''],
      failure_modes = [],
      emergence_patterns = [],
      batcave_context = U ''Cascade failures, domino effects, contagion''\<rparr>,
     \<lparr>name = U ''Eight of Events'',
      card_type = Suit_value EVENTS,
      number = Some 8,
      pattern = U ''Event replay. Learning from history.'',
      questions = [U ''What can I learn from past events?'',
        U ''What patterns repeat?''],
      failure_modes = [],
      emergence_patterns = [],
      batcave_context = U ''Historical analysis, pattern recognition''\<rparr>,
     \<lparr>name = U ''Nine of Events'',
      card_type = Suit_value EVENTS,
      number = Some 9,
      pattern = U ''Event overload. Too much happening.'',
      questions = [U ''What events can I ignore?'',
        U ''Where do I focus?''],
      failure_modes = [],
      emergence_patterns = [],
      batcave_context = U ''Information overload, priority management''\<rparr>,
     \<lparr>name = U ''Ten of Events'',
      card_type = Suit_value EVENTS,
      number = Some 10,
      pattern = U ''Event completion. Cycle ending.'',
      questions = [U ''What cycle is finishing?'',
        U ''What comes after completion?''],
      failure_modes = [],
      emergence_patterns = [],
      batcave_context = U ''Project completion, cycle endings''\<rparr>,
     \<lparr>name = U ''Page of Events'',
      card_type = Suit_value EVENTS,
      number = Some 11,
      pattern = U ''Event watcher. Observer of patterns.'',
      questions = [U ''What events should I monitor?'',
        U ''What patterns am I missing?''],
      failure_modes = [],
      emergence_patterns = [],
      batcave_context = U ''Monitoring systems, early warning''\<rparr>,
     \<lparr>name = U ''Knight of Events'',
      card_type = Suit_value EVENTS,
      number = Some 12,
      pattern = U ''Event responder. Quick reaction.'',
      questions = [U ''How fast must I respond?'',
        (U ''What'' @ [39] @ U ''s the urgency?'')],
      failure_modes = [],
      emergence_patterns = [],
      batcave_context = U ''Incident response, crisis management''\<rparr>,
     \<lparr>name = U ''Queen of Events'',
      card_type = Suit_value EVENTS,
      number = Some 13,
      pattern = U ''Event wisdom. Understanding timing.'',
      questions = [U ''When is the right time?'',
        (U ''What'' @ [39] @ U ''s the rhythm here?'')],
      failure_modes = [],
      emergence_patterns = [],
      batcave_context = U ''Timing strategy, rhythmic patterns''\<rparr>,
     \<lparr>name = U ''King of Events'',
      card_type = Suit_value EVENTS,
      number = Some 14,
      pattern = U ''Event mastery. Control of timing.'',
      questions = [U ''Do I control the timing?'',
        U ''Who sets the tempo?''],
      failure_modes = [],
      emergence_patterns = [],
      batcave_context = U ''Strategic timing, tempo control''\<rparr>]\<close>

definition risk_create_agents_suit :: "risk_card list" where
  \<open>risk_create_agents_suit =
    [\<lparr>name = U ''Ace of Agents'',
      card_type = Suit_value AGENTS,
      number = Some 1,
      pattern = U ''Autonomous action. Independent agency.'',
      questions = [U ''What can I do alone?'',
        U ''Where do I have agency?''],
      failure_modes = [],
      emergence_patterns = [],
      batcave_context = U ''Individual autonomy, self-direction''\<rparr>,
     \<lparr>name = U ''Two of Agents'',
      card_type = Suit_value AGENTS,
      number = Some 2,
      pattern = U ''Partnership. Cooperative action.'',
      questions = [(U ''Who'' @ [39] @ U ''s my partner here?''),
        U ''How do we coordinate?''],
      failure_modes = [],
      emergence_patterns = [],
      batcave_context = U ''Collaboration, paired work''\<rparr>,
     \<lparr>name = U ''Three of Agents'',
      card_type = Suit_value AGENTS,
      number = Some 3,
      pattern = U ''Small team. Coordinated intelligence.'',
      questions = [(U ''Who'' @ [39] @ U ''s on my team?''),
        U ''How do we work together?''],
      failure_modes = [],
      emergence_patterns = [],
      batcave_context = U ''Small group dynamics, team formation''\<rparr>,
     \<lparr>name = U ''Four of Agents'',
      card_type = Suit_value AGENTS,
      number = Some 4,
      pattern = U ''Organized structure. Hierarchy forming.'',
      questions = [(U ''What'' @ [39] @ U ''s the structure here?''),
        U ''Who reports to whom?''],
      failure_modes = [],
      emergence_patterns = [],
      batcave_context = U ''Organizational hierarchy, chain of command''\<rparr>,
     \<lparr>name = U ''Five of Agents'',
      card_type = Suit_value AGENTS,
      number = Some 5,
      pattern = U ''Agent conflict. Competing interests.'',
      questions = [(U ''What'' @ [39] @ U ''s the conflict?''),
        U ''Can interests align?''],
      failure_modes = [],
      emergence_patterns = [],
      batcave_context = U ''Competing priorities, game theory''\<rparr>,
     \<lparr>name = U ''Six of Agents'',
      card_type = Suit_value AGENTS,
      number = Some 6,
      pattern = U ''Swarm intelligence. Emergent coordination.'',
      questions = [U ''How does coordination emerge?'',
        U ''What rules create the swarm?''],
      failure_modes = [],
      emergence_patterns = [],
      batcave_context = U ''Collective behavior, emergent organization''\<rparr>,
     \<lparr>name = U ''Seven of Agents'',
      card_type = Suit_value AGENTS,
      number = Some 7,
      pattern = U ''Agent diversity. Specialization.'',
      questions = [(U ''What'' @ [39] @ U ''s each agent'' @ [39] @ U ''s role?''),
        U ''How does diversity help?''],
      failure_modes = [],
      emergence_patterns = [],
      batcave_context = U ''Specialization, division of labor''\<rparr>,
     \<lparr>name = U ''Eight of Agents'',
      card_type = Suit_value AGENTS,
      number = Some 8,
      pattern = U ''Multi-agent systems. Complex coordination.'',
      questions = [U ''How do many agents coordinate?'',
        (U ''What'' @ [39] @ U ''s the protocol?'')],
      failure_modes = [],
      emergence_patterns = [],
      batcave_context = U ''Large-scale coordination, protocols''\<rparr>,
     \<lparr>name = U ''Nine of Agents'',
      card_type = Suit_value AGENTS,
      number = Some 9,
      pattern = U ''Agent autonomy vs. control. Tension.'',
      questions = [U ''How much control do I need?'',
        U ''When do I let go?''],
      failure_modes = [],
      emergence_patterns = [],
      batcave_context = U ''Micromanagement vs. delegation, trust''\<rparr>,
     \<lparr>name = U ''Ten of Agents'',
      card_type = Suit_value AGENTS,
      number = Some 10,
      pattern = U ''Collective intelligence. Hive mind.'',
      questions = [U ''What does the collective know?'',
        U ''How do we think together?''],
      failure_modes = [],
      emergence_patterns = [],
      batcave_context = U ''Collective decision-making, wisdom of crowds''\<rparr>,
     \<lparr>name = U ''Page of Agents'',
      card_type = Suit_value AGENTS,
      number = Some 11,
      pattern = U ''Learning agent. Growing capability.'',
      questions = [U ''What am I learning?'',
        U ''How do I improve?''],
      failure_modes = [],
      emergence_patterns = [],
      batcave_context = U ''Skill development, capability growth''\<rparr>,
     \<lparr>name = U ''Knight of Agents'',
      card_type = Suit_value AGENTS,
      number = Some 12,
      pattern = U ''Action-oriented agent. Executor.'',
      questions = [U ''What needs doing now?'',
        U ''How do I execute?''],
      failure_modes = [],
      emergence_patterns = [],
      batcave_context = U ''Execution focus, getting things done''\<rparr>,
     \<lparr>name = U ''Queen of Agents'',
      card_type = Suit_value AGENTS,
      number = Some 13,
      pattern = U ''Nurturing intelligence. Teacher and mentor.'',
      questions = [U ''Who needs my guidance?'',
        U ''How do I develop others?''],
      failure_modes = [],
      emergence_patterns = [],
      batcave_context = U ''Mentorship, teaching, development''\<rparr>,
     \<lparr>name = U ''King of Agents'',
      card_type = Suit_value AGENTS,
      number = Some 14,
      pattern = U ''Strategic intelligence. Master coordinator.'',
      questions = [(U ''What'' @ [39] @ U ''s the overall strategy?''),
        U ''How do I orchestrate?''],
      failure_modes = [],
      emergence_patterns = [],
      batcave_context = U ''Strategic leadership, orchestration''\<rparr>]\<close>

definition risk_create_resources_suit :: "risk_card list" where
  \<open>risk_create_resources_suit =
    [\<lparr>name = U ''Ace of Resources'',
      card_type = Suit_value RESOURCES,
      number = Some 1,
      pattern = U ''New resource. Fresh potential.'',
      questions = [U ''What new resource is available?'',
        U ''How do I use it?''],
      failure_modes = [],
      emergence_patterns = [],
      batcave_context = U ''New funding, new capability, new energy''\<rparr>,
     \<lparr>name = U ''Two of Resources'',
      card_type = Suit_value RESOURCES,
      number = Some 2,
      pattern = U ''Resource balance. Equilibrium.'',
      questions = [U ''Am I balanced?'',
        U ''What needs rebalancing?''],
      failure_modes = [],
      emergence_patterns = [],
      batcave_context = U ''Work-life balance, resource allocation''\<rparr>,
     \<lparr>name = U ''Three of Resources'',
      card_type = Suit_value RESOURCES,
      number = Some 3,
      pattern = U ''Resource collaboration. Pooling.'',
      questions = [U ''What resources can we share?'',
        U ''How do we pool?''],
      failure_modes = [],
      emergence_patterns = [],
      batcave_context = U ''Shared resources, collaboration''\<rparr>,
     \<lparr>name = U ''Four of Resources'',
      card_type = Suit_value RESOURCES,
      number = Some 4,
      pattern = U ''Resource hoarding. Holding too tight.'',
      questions = [U ''What am I hoarding?'',
        U ''What needs to flow?''],
      failure_modes = [],
      emergence_patterns = [],
      batcave_context = U ''Accumulation vs. flow, letting go''\<rparr>,
     \<lparr>name = U ''Five of Resources'',
      card_type = Suit_value RESOURCES,
      number = Some 5,
      pattern = U ''Resource scarcity. Not enough.'',
      questions = [(U ''What'' @ [39] @ U ''s truly scarce?''),
        U ''How do I work within constraints?''],
      failure_modes = [],
      emergence_patterns = [],
      batcave_context = U ''Scarcity mindset, constraint optimization''\<rparr>,
     \<lparr>name = U ''Six of Resources'',
      card_type = Suit_value RESOURCES,
      number = Some 6,
      pattern = U ''Resource flow. Circulation and exchange.'',
      questions = [U ''Where do resources flow?'',
        U ''What blocks flow?''],
      failure_modes = [],
      emergence_patterns = [],
      batcave_context = U ''Cash flow, energy flow, circulation''\<rparr>,
     \<lparr>name = U ''Seven of Resources'',
      card_type = Suit_value RESOURCES,
      number = Some 7,
      pattern = U ''Resource investment. Long-term thinking.'',
      questions = [U ''What investment pays off later?'',
        (U ''What'' @ [39] @ U ''s the long game?'')],
      failure_modes = [],
      emergence_patterns = [],
      batcave_context = U ''Long-term investment, deferred gratification''\<rparr>,
     \<lparr>name = U ''Eight of Resources'',
      card_type = Suit_value RESOURCES,
      number = Some 8,
      pattern = U ''Resource transformation. Alchemy.'',
      questions = [U ''How do I transform this resource?'',
        (U ''What'' @ [39] @ U ''s the conversion?'')],
      failure_modes = [],
      emergence_patterns = [],
      batcave_context = U ''Value transformation, resource conversion''\<rparr>,
     \<lparr>name = U ''Nine of Resources'',
      card_type = Suit_value RESOURCES,
      number = Some 9,
      pattern = U ''Resource abundance. More than enough.'',
      questions = [U ''What abundance do I have?'',
        U ''Am I seeing it?''],
      failure_modes = [],
      emergence_patterns = [],
      batcave_context = U ''Abundance mindset, gratitude''\<rparr>,
     \<lparr>name = U ''Ten of Resources'',
      card_type = Suit_value RESOURCES,
      number = Some 10,
      pattern = U ''Resource legacy. Inheritance.'',
      questions = [U ''What resources do I pass on?'',
        (U ''What'' @ [39] @ U ''s my inheritance?'')],
      failure_modes = [],
      emergence_patterns = [],
      batcave_context = U ''Legacy planning, generational transfer''\<rparr>,
     \<lparr>name = U ''Page of Resources'',
      card_type = Suit_value RESOURCES,
      number = Some 11,
      pattern = U ''Resource learning. Understanding value.'',
      questions = [(U ''What'' @ [39] @ U ''s truly valuable?''),
        U ''How do I recognize worth?''],
      failure_modes = [],
      emergence_patterns = [],
      batcave_context = U ''Value assessment, learning worth''\<rparr>,
     \<lparr>name = U ''Knight of Resources'',
      card_type = Suit_value RESOURCES,
      number = Some 12,
      pattern = (U ''Resource quest. Seeking what'' @ [39] @ U ''s needed.''),
      questions = [U ''What resource am I seeking?'',
        U ''Where do I find it?''],
      failure_modes = [],
      emergence_patterns = [],
      batcave_context = U ''Resource acquisition, quest''\<rparr>,
     \<lparr>name = U ''Queen of Resources'',
      card_type = Suit_value RESOURCES,
      number = Some 13,
      pattern = (U ''Resource wisdom. Knowing what'' @ [39] @ U ''s needed.''),
      questions = [U ''What do I truly need?'',
        (U ''What'' @ [39] @ U ''s sufficient?'')],
      failure_modes = [],
      emergence_patterns = [],
      batcave_context = U ''Sufficiency, wise allocation''\<rparr>,
     \<lparr>name = U ''King of Resources'',
      card_type = Suit_value RESOURCES,
      number = Some 14,
      pattern = U ''Resource mastery. Strategic allocation.'',
      questions = [U ''How do I allocate optimally?'',
        (U ''What'' @ [39] @ U ''s my strategy?'')],
      failure_modes = [],
      emergence_patterns = [],
      batcave_context = U ''Strategic resource allocation, mastery''\<rparr>]\<close>


section \<open>The random generator and \<open>random.shuffle\<close>\<close>

text \<open>
  Both sessions shuffle with the process-wide generator of Python's \<open>random\<close> module.
  The generator is modelled as the stream of raw values it is still going to deliver:
  \<open>randbelow k\<close> takes the next raw value, reduces it below \<open>k\<close> and leaves the rest
  of the stream as the new generator state. Every sequence of outcomes \<open>j < k\<close>
  is delivered by some stream, so nothing is assumed about the generator.
\<close>

type_synonym rng = "nat stream"

definition randbelow :: "nat \<Rightarrow> rng \<Rightarrow> nat \<times> rng" where
  "randbelow k g = (shd g mod k, stl g)"

text \<open>The exchange \<open>x[i], x[j] = x[j], x[i]\<close>: both reads happen before both writes.\<close>

definition swap :: "nat \<Rightarrow> nat \<Rightarrow> 'a list \<Rightarrow> 'a list" where
  "swap i j xs = (let a = xs ! j; b = xs ! i in (xs[i := a])[j := b])"

text \<open>
  \<open>random.shuffle(x)\<close> is the loop
  \<^verbatim>\<open>for i in reversed(range(1, len(x))): j = randbelow(i + 1); x[i], x[j] = x[j], x[i]\<close>.
  The first argument of \<open>shuffle_loop\<close> is the loop index \<open>i\<close>, counting down to 1.
\<close>

fun shuffle_loop :: "nat \<Rightarrow> 'a list \<Rightarrow> rng \<Rightarrow> 'a list \<times> rng" where
  "shuffle_loop 0 xs g = (xs, g)"
| "shuffle_loop (Suc k) xs g =
     (let (j, g') = randbelow (Suc k + 1) g
      in shuffle_loop k (swap (Suc k) j xs) g')"

definition shuffle :: "'a list \<Rightarrow> rng \<Rightarrow> 'a list \<times> rng" where
  "shuffle xs g = shuffle_loop (length xs - 1) xs g"

section \<open>The session object: \<open>TonysTarot\<close> and \<open>SystemsTarot\<close>\<close>

text \<open>
  The two classes have the same three methods, word for word; they differ in the card
  type and in the catalogue. The session is therefore modelled once, for any card type
  \<open>'c\<close>. \<open>full_deck\<close> is the catalogue, \<open>deck\<close> the draw order.
\<close>

record 'c tarot =
  full_deck :: "'c list"
  deck :: "'c list"

text \<open>\<open>self.deck = list(self.full_deck); random.shuffle(self.deck)\<close>\<close>

definition reset_and_shuffle :: "'c tarot \<Rightarrow> rng \<Rightarrow> 'c tarot \<times> rng" where
  "reset_and_shuffle t g =
     (let (d, g') = shuffle (full_deck t) g in (t\<lparr>deck := d\<rparr>, g'))"

text \<open>
  \<open>__init__\<close> builds the catalogue and shuffles. Before the first shuffle the attribute
  \<open>deck\<close> does not exist; the model holds the empty list there.
\<close>

definition init :: "'c list \<Rightarrow> rng \<Rightarrow> 'c tarot \<times> rng" where
  "init catalog g = reset_and_shuffle \<lparr>full_deck = catalog, deck = []\<rparr> g"

text \<open>
  \<open>draw\<close>, statement by statement: the early return for \<open>n <= 0\<close>, the reset when
  the draw order is too short, the two slices, the reset below the low-water mark.
  The result is the drawn list, the session afterwards and the generator afterwards.
\<close>

definition draw :: "int \<Rightarrow> 'c tarot \<Rightarrow> rng \<Rightarrow> 'c list \<times> 'c tarot \<times> rng" where
  "draw n t g =
     (if n \<le> 0 then ([], t, g)
      else
        let (t1, g1) = (if n > int (length (deck t)) then reset_and_shuffle t g else (t, g));
            drawn = take (nat n) (deck t1);
            t2 = t1\<lparr>deck := drop (nat n) (deck t1)\<rparr>;
            (t3, g2) = (if length (deck t2) < 10 then reset_and_shuffle t2 g1 else (t2, g1))
        in (drawn, t3, g2))"


text \<open>
  The two guards of \<open>draw\<close> that call \<open>reset_and_shuffle\<close>, as predicates of the
  request and the session before the call: \<open>resets_before\<close> is
  \<open>n > len(self.deck)\<close> (reached only when \<open>n > 0\<close>); \<open>resets_after\<close> is
  \<open>len(self.deck) < 10\<close> evaluated after the slice, in a call that did not reset before.
\<close>

definition resets_before :: "int \<Rightarrow> 'c tarot \<Rightarrow> bool" where
  "resets_before n t = (0 < n \<and> n > int (length (deck t)))"

definition resets_after :: "int \<Rightarrow> 'c tarot \<Rightarrow> bool" where
  "resets_after n t = (0 < n \<and> length (drop (nat n) (deck t)) < 10)"

text \<open>
  What \<open>len(self.deck)\<close> is right after the statement \<open>self.deck = self.deck[n:]\<close>
  of a call with \<open>n > 0\<close>, that is, how many cards the call leaves before the
  low-water check looks at them.
\<close>

definition left_by_slice :: "int \<Rightarrow> 'c tarot \<Rightarrow> rng \<Rightarrow> nat" where
  "left_by_slice n t g =
     length (drop (nat n)
       (deck (if n > int (length (deck t)) then fst (reset_and_shuffle t g) else t)))"


text \<open>
  The catalogue of both programs has 78 pairwise different cards; the session invariant
  adds what the draw order satisfies between calls.
\<close>

definition catalog_ok :: "'c list \<Rightarrow> bool" where
  "catalog_ok c = (distinct c \<and> length c = 78)"

definition session_inv :: "'c tarot \<Rightarrow> bool" where
  "session_inv t =
     (catalog_ok (full_deck t) \<and> distinct (deck t) \<and>
      set (deck t) \<subseteq> set (full_deck t) \<and> 10 \<le> length (deck t))"

text \<open>
  The sessions a caller can observe: the one the constructor returns, and every one
  reached from it by the public methods \<open>reset_and_shuffle\<close> and \<open>draw\<close>, with any
  use of the process-wide generator by other code in between.
\<close>

inductive reachable :: "'c list \<Rightarrow> 'c tarot \<Rightarrow> bool" for catalog :: "'c list" where
  r_init: "reachable catalog (fst (init catalog g))"
| r_reset: "reachable catalog t \<Longrightarrow> reachable catalog (fst (reset_and_shuffle t g))"
| r_draw: "reachable catalog t \<Longrightarrow> reachable catalog (fst (snd (draw n t g)))"

text \<open>
  The two constructors. Each concatenates \<open>MAJOR_ARCANA\<close> with the four suits of its own
  module into \<open>full_deck\<close> and shuffles.
\<close>

definition SystemsTarot_full_deck :: "sys_card list" where
  "SystemsTarot_full_deck =
     MAJOR_ARCANA @ create_networks_suit @ create_events_suit
       @ create_agents_suit @ create_resources_suit"

definition TonysTarot_full_deck :: "risk_card list" where
  "TonysTarot_full_deck =
     risk_MAJOR_ARCANA @ risk_create_networks_suit @ risk_create_events_suit
       @ risk_create_agents_suit @ risk_create_resources_suit"

definition SystemsTarot_new :: "rng \<Rightarrow> sys_card tarot \<times> rng" where
  "SystemsTarot_new g = init SystemsTarot_full_deck g"

definition TonysTarot_new :: "rng \<Rightarrow> risk_card tarot \<times> rng" where
  "TonysTarot_new g = init TonysTarot_full_deck g"

text \<open>The cards of one category, in catalogue order.\<close>

definition of_category :: "pystr \<Rightarrow> 'a card_scheme list \<Rightarrow> 'a card_scheme list" where
  "of_category ty cs = filter (\<lambda>c. card_type c = ty) cs"

text \<open>
  A session as the constructor of \<open>SystemsTarot\<close> returns it, with the generator left
  behind; the generator it starts from delivers 0, 1, 2, and so on.
\<close>

definition example_session :: "sys_card tarot" where
  "example_session = fst (SystemsTarot_new (fromN 0))"

definition example_rng :: rng where
  "example_rng = snd (SystemsTarot_new (fromN 0))"

section \<open>The prompt generator, \<open>generate_prompts.py\<close>\<close>

text \<open>
  \<open>str.lower\<close>. The letters \<open>A\<close> to \<open>Z\<close> go to \<open>a\<close> to \<open>z\<close>; every other
  code point is kept. That is what Python does on ASCII text and on the one accented
  letter of the catalogue, which is lower-case already; the Unicode case tables for the
  remaining code points are not part of this repository.
\<close>

definition lower_char :: "pychar \<Rightarrow> pychar" where
  "lower_char c = (if 65 \<le> c \<and> c \<le> 90 then c + 32 else c)"

definition lower :: "pystr \<Rightarrow> pystr" where
  "lower s = map lower_char s"

text \<open>The character class \<open>[a-z0-9]\<close>.\<close>

definition is_slug_char :: "pychar \<Rightarrow> bool" where
  "is_slug_char c = ((97 \<le> c \<and> c \<le> 122) \<or> (48 \<le> c \<and> c \<le> 57))"

text \<open>
  \<open>re.sub(r"[^a-z0-9]+", "_", text)\<close>: every maximal run of characters outside the
  class becomes one underscore. The flag says that the run the scan is in has been
  replaced already.
\<close>

fun re_sub_runs :: "bool \<Rightarrow> pystr \<Rightarrow> pystr" where
  "re_sub_runs in_run [] = []"
| "re_sub_runs in_run (c # cs) =
     (if is_slug_char c then c # re_sub_runs False cs
      else if in_run then re_sub_runs True cs
      else 95 # re_sub_runs True cs)"

text \<open>\<open>s.strip(chars)\<close> removes the characters of a set from both ends.\<close>

definition strip_with :: "(pychar \<Rightarrow> bool) \<Rightarrow> pystr \<Rightarrow> pystr" where
  "strip_with p s = rev (dropWhile p (rev (dropWhile p s)))"

definition slugify :: "pystr \<Rightarrow> pystr" where
  "slugify text = strip_with (\<lambda>c. c = 95) (re_sub_runs False (lower text))"

text \<open>
  \<open>s.strip()\<close> removes white space, the code points for which \<open>str.isspace\<close> holds.
\<close>

definition is_space :: "pychar \<Rightarrow> bool" where
  "is_space c =
     ((9 \<le> c \<and> c \<le> 13) \<or> (28 \<le> c \<and> c \<le> 32) \<or> c = 133 \<or> c = 160 \<or> c = 5760 \<or>
      (8192 \<le> c \<and> c \<le> 8202) \<or> c = 8232 \<or> c = 8233 \<or> c = 8239 \<or> c = 8287 \<or> c = 12288)"

definition strip :: "pystr \<Rightarrow> pystr" where
  "strip s = strip_with is_space s"

text \<open>\<open>s.split(sep, 1)\<close> for a one-character separator: at most one cut, at the first one.\<close>

definition split_once :: "pychar \<Rightarrow> pystr \<Rightarrow> pystr list" where
  "split_once sep s =
     (case dropWhile (\<lambda>c. c \<noteq> sep) s of
        [] \<Rightarrow> [s]
      | _ # rest \<Rightarrow> [takeWhile (\<lambda>c. c \<noteq> sep) s, rest])"

text \<open>\<open>sep.join(parts)\<close>\<close>

fun join :: "pystr \<Rightarrow> pystr list \<Rightarrow> pystr" where
  "join sep [] = []"
| "join sep [x] = x"
| "join sep (x # y # ys) = x @ sep @ join sep (y # ys)"

text \<open>
  \<open>examples_to_visuals\<close>: the loop over the examples with the list \<open>visuals\<close> it
  appends to, then the cap at three and the join.
\<close>

fun visuals_loop :: "pystr list \<Rightarrow> pystr list \<Rightarrow> pystr list" where
  "visuals_loop [] visuals = visuals"
| "visuals_loop (ex # exs) visuals =
     (let parts = split_once 58 ex
      in if length parts = 2
         then visuals_loop exs (visuals @ [lower (strip (parts ! 1))])
         else visuals_loop exs visuals)"

definition examples_to_visuals :: "pystr list \<Rightarrow> pystr" where
  "examples_to_visuals exs = join (U ''; '') (take 3 (visuals_loop exs []))"

text \<open>Integers in text: \<open>str(n)\<close> and the format \<open>02d\<close> (zero-padded to width two).\<close>

fun dec_digits :: "nat \<Rightarrow> pystr" where
  "dec_digits n = (if n < 10 then [48 + n] else dec_digits (n div 10) @ [48 + n mod 10])"

declare dec_digits.simps [simp del]

definition str_int :: "int \<Rightarrow> pystr" where
  "str_int i = (if i < 0 then 45 # dec_digits (nat (- i)) else dec_digits (nat i))"

definition zero_pad :: "nat \<Rightarrow> pystr \<Rightarrow> pystr" where
  "zero_pad w s = replicate (w - length s) 48 @ s"

definition fmt_02d :: "int \<Rightarrow> pystr" where
  "fmt_02d i =
     (if i < 0 then 45 # zero_pad 1 (dec_digits (nat (- i)))
      else zero_pad 2 (dec_digits (nat i)))"

text \<open>
  What can go wrong: a subscript on a dictionary without the key, and the format
  \<open>02d\<close> applied to \<open>None\<close>.
\<close>

datatype py_error = KeyError | TypeError

definition fmt_02d_opt :: "int option \<Rightarrow> py_error + pystr" where
  "fmt_02d_opt n = (case n of None \<Rightarrow> Inl TypeError | Some i \<Rightarrow> Inr (fmt_02d i))"

text \<open>\<open>f"{number}"\<close> for the optional rank.\<close>

definition str_number :: "int option \<Rightarrow> pystr" where
  "str_number n = (case n of None \<Rightarrow> U ''None'' | Some i \<Rightarrow> str_int i)"

text \<open>Dictionaries with literal contents are association lists; \<open>d[k]\<close> and \<open>d.get(k, v)\<close>.\<close>

definition dict_index :: "('k \<times> 'v) list \<Rightarrow> 'k \<Rightarrow> py_error + 'v" where
  "dict_index d k = (case map_of d k of None \<Rightarrow> Inl KeyError | Some v \<Rightarrow> Inr v)"

definition dict_get :: "('k \<times> 'v) list \<Rightarrow> 'k \<Rightarrow> 'v \<Rightarrow> 'v" where
  "dict_get d k v = (case map_of d k of None \<Rightarrow> v | Some x \<Rightarrow> x)"

definition MAJOR_STYLE :: pystr where
  \<open>MAJOR_STYLE =
     U ''mystical tarot card illustration, intricate Art Nouveau border with celestial motifs, deep indigo and gold palette, cosmic starfield background, symbolic and archetypal imagery, richly detailed, dramatic chiaroscuro lighting''\<close>

definition SUIT_STYLES :: "(pystr \<times> pystr) list" where
  \<open>SUIT_STYLES =
     [(U ''Networks'',
       U ''tarot card illustration, ornate geometric border, deep cerulean and cyan palette, luminous node-and-thread motifs, structural and crystalline aesthetic, glowing filaments on dark ground, detailed linework''),
      (U ''Events'',
       U ''tarot card illustration, dynamic Art Deco border with chevron motifs, amber and vermillion palette, kinetic energy, motion lines and lightning, dramatic directional lighting, sense of urgency and change''),
      (U ''Agents'',
       U ''tarot card illustration, organic border of intertwining figures and vines, emerald and forest-green palette, populated with symbolic figures or creatures, warm candlelit atmosphere, sense of intelligence and coordination''),
      (U ''Resources'',
       U ''tarot card illustration, earthy border of roots and mineral veins, ochre and burnished-gold palette, tactile materials and flowing substances, rich textures of wood, stone, water, and soil, abundance or scarcity made visible'')]\<close>

definition RANK_CUES :: "(int \<times> pystr) list" where
  \<open>RANK_CUES =
     [(1, (U ''a single seed, spark, or origin point '' @ [8212] @ U '' pure potential, void about to bloom'')),
      (2, (U ''two elements in direct dialogue '' @ [8212] @ U '' a bridge, a handshake, or mirrored forms'')),
      (3, (U ''three points forming a triangle '' @ [8212] @ U '' stability, redundancy, the first structure'')),
      (4, (U ''a hub at centre with spokes radiating outward '' @ [8212] @ U '' centrality, hierarchy'')),
      (5, (U ''fracture lines and diverging paths '' @ [8212] @ U '' tension, breakage, conflict'')),
      (6, (U ''a web or lattice of equal nodes '' @ [8212] @ U '' distributed resilience, many equal paths'')),
      (7, (U ''congestion, bottleneck, or overflow '' @ [8212] @ U '' too much pressing through too little'')),
      (8, (U ''a growing spiral or compounding cascade '' @ [8212] @ U '' scale and network effects'')),
      (9, (U ''over-abundance or entanglement '' @ [8212] @ U '' complexity at its limit'')),
      (10, (U ''a completed ring or full circle '' @ [8212] @ U '' maturity, the cycle closed'')),
      (11, (U ''a youthful or apprentice figure exploring the scene '' @ [8212] @ U '' curiosity, discovery'')),
      (12, (U ''an armoured or swift figure in motion '' @ [8212] @ U '' defender, executor, quick response'')),
      (13, (U ''a wise seated figure tending or guiding '' @ [8212] @ U '' nurture, deep understanding'')),
      (14, (U ''a commanding figure surveying the domain '' @ [8212] @ U '' mastery, strategic overview''))]\<close>


text \<open>The last line of both templates.\<close>

definition closing_line :: pystr where
  "closing_line =
     U ''Portrait orientation, tarot card proportions (2:3.5), '' @
     U ''no text except the card title in an elegant serif at the base.''"

text \<open>\<open>build_major_prompt\<close>; the index is a parameter the body does not use.\<close>

definition build_major_prompt :: "sys_card \<Rightarrow> int \<Rightarrow> pystr" where
  "build_major_prompt crd index =
     (let visual_grounding = examples_to_visuals (examples crd);
          questions_flavour = (case questions crd of [] \<Rightarrow> [] | q # _ \<Rightarrow> q);
          lines =
            [MAJOR_STYLE @ U ''.'',
             U ''Card title at bottom: '' @ [34] @ name crd @ [34] @ U '' '' @ [8212] @ U '' Major Arcana.'',
             U ''Central image: '' @ pattern crd,
             U ''Visual references woven into the scene: '' @ visual_grounding @ U ''.'',
             U ''Philosophical mood: '' @ [34] @ questions_flavour @ [34],
             closing_line]
      in join [10] lines)"

text \<open>
  \<open>build_minor_prompt\<close>. The default of \<open>SUIT_STYLES.get\<close> is the subscript
  \<open>SUIT_STYLES["Networks"]\<close>, evaluated before the call.
\<close>

definition build_minor_prompt :: "sys_card \<Rightarrow> py_error + pystr" where
  "build_minor_prompt crd =
     (let suit = card_type crd;
          number = number crd
      in case dict_index SUIT_STYLES (U ''Networks'') of
           Inl e \<Rightarrow> Inl e
         | Inr dflt \<Rightarrow>
             (let style = dict_get SUIT_STYLES suit dflt;
                  rank_cue = (case number of None \<Rightarrow> [] | Some i \<Rightarrow> dict_get RANK_CUES i []);
                  visual_grounding = examples_to_visuals (examples crd);
                  lines =
                    [style @ U ''.'',
                     U ''Card title at bottom: '' @ [34] @ name crd @ [34] @ U '' '' @ [8212] @ U '' ''
                       @ suit @ U '', card '' @ str_number number @ U ''.'',
                     U ''Central image: '' @ pattern crd,
                     U ''Compositional anchor: '' @ rank_cue @ U ''.'',
                     U ''Scene details drawn from: '' @ visual_grounding @ U ''.'',
                     closing_line]
              in Inr (join [10] lines)))"

text \<open>
  \<open>generate_all\<close>. The files it writes into the output directory are kept as the list
  of \<open>(file name, content)\<close> pairs in the order of the writes; a file opened with mode
  \<open>"w"\<close> a second time would replace the first content. The summary the function prints
  at its end is left out.
\<close>

type_synonym files = "(pystr \<times> pystr) list"

fun major_loop :: "int \<Rightarrow> sys_card list \<Rightarrow> files \<Rightarrow> files" where
  "major_loop i [] fs = fs"
| "major_loop i (crd # cards) fs =
     (let filename = U ''major_'' @ fmt_02d i @ U ''_'' @ slugify (name crd) @ U ''.txt'';
          prompt = build_major_prompt crd i
      in major_loop (i + 1) cards (fs @ [(filename, prompt @ [10])]))"

fun suit_loop :: "pystr \<Rightarrow> sys_card list \<Rightarrow> files \<Rightarrow> py_error + files" where
  "suit_loop suit_prefix [] fs = Inr fs"
| "suit_loop suit_prefix (crd # cards) fs =
     (case fmt_02d_opt (number crd) of
        Inl e \<Rightarrow> Inl e
      | Inr nn \<Rightarrow>
          (let filename = suit_prefix @ U ''_'' @ nn @ U ''_'' @ slugify (name crd) @ U ''.txt''
           in case build_minor_prompt crd of
                Inl e \<Rightarrow> Inl e
              | Inr prompt \<Rightarrow> suit_loop suit_prefix cards (fs @ [(filename, prompt @ [10])])))"

fun suits_loop :: "(pystr \<times> sys_card list) list \<Rightarrow> files \<Rightarrow> py_error + files" where
  "suits_loop [] fs = Inr fs"
| "suits_loop ((suit_prefix, cards) # rest) fs =
     (case suit_loop suit_prefix cards fs of
        Inl e \<Rightarrow> Inl e
      | Inr fs' \<Rightarrow> suits_loop rest fs')"

definition generate_all :: "py_error + files" where
  "generate_all =
     (let fs = major_loop 1 MAJOR_ARCANA [];
          suits = [(U ''networks'', create_networks_suit),
                   (U ''events'', create_events_suit),
                   (U ''agents'', create_agents_suit),
                   (U ''resources'', create_resources_suit)]
      in suits_loop suits fs)"

text \<open>
  The description of the external interface, in its own words: the two file names, and
  the example snippet as the text that follows the first colon, lower-cased.
\<close>

definition after_first_colon :: "pystr \<Rightarrow> pystr" where
  "after_first_colon ex = drop 1 (dropWhile (\<lambda>c. c \<noteq> 58) ex)"

definition has_colon :: "pystr \<Rightarrow> bool" where
  "has_colon ex = (58 \<in> set ex)"

definition spec_snippet :: "pystr \<Rightarrow> pystr" where
  "spec_snippet ex = lower (after_first_colon ex)"

definition snippet :: "pystr \<Rightarrow> pystr" where
  "snippet ex = lower (strip (after_first_colon ex))"

definition spec_major_name :: "int \<Rightarrow> pystr \<Rightarrow> pystr" where
  "spec_major_name index nm = U ''major_'' @ fmt_02d index @ U ''_'' @ slugify nm @ U ''.txt''"

definition spec_minor_name :: "pystr \<Rightarrow> int \<Rightarrow> pystr \<Rightarrow> pystr" where
  "spec_minor_name category rank nm =
     slugify category @ U ''_'' @ fmt_02d rank @ U ''_'' @ slugify nm @ U ''.txt''"

text \<open>The style text of a category, as \<open>build_minor_prompt\<close> looks it up.\<close>

definition suit_style :: "pystr \<Rightarrow> pystr" where
  "suit_style category = dict_get SUIT_STYLES category (dict_get SUIT_STYLES (U ''Networks'') [])"

section \<open>The session with its lists as objects\<close>

text \<open>
  Python lists and cards are objects that several names can share: the catalogue
  list, the draw order and every list \<open>draw\<close> returns hold references to the same
  \<open>Card\<close> objects, and \<open>random.shuffle\<close> changes the list it is given in place. To
  state what a call leaves untouched, the session is modelled a second time over an
  explicit store: a reference is the position of an object in the store, allocation
  appends, an update in place replaces the entry.
\<close>

type_synonym ref = nat

record 'c world =
  card_objs :: "'c list"
  list_objs :: "ref list list"
  rnd :: rng
  stdout :: "pystr list"

record obj_tarot =
  full_deck_ref :: ref
  deck_ref :: ref

definition new_list :: "ref list \<Rightarrow> 'c world \<Rightarrow> ref \<times> 'c world" where
  "new_list xs w = (length (list_objs w), w\<lparr>list_objs := list_objs w @ [xs]\<rparr>)"

text \<open>\<open>random.shuffle(x)\<close> on the list object \<open>x\<close>: the object is changed in place.\<close>

definition shuffle_in_place :: "ref \<Rightarrow> 'c world \<Rightarrow> 'c world" where
  "shuffle_in_place a w =
     (let (xs, g') = shuffle (list_objs w ! a) (rnd w)
      in w\<lparr>list_objs := (list_objs w)[a := xs], rnd := g'\<rparr>)"

text \<open>\<open>self.deck = list(self.full_deck)\<close> makes a new list; the shuffle works on that one.\<close>

definition obj_reset_and_shuffle :: "obj_tarot \<Rightarrow> 'c world \<Rightarrow> obj_tarot \<times> 'c world" where
  "obj_reset_and_shuffle t w =
     (let (a, w1) = new_list (list_objs w ! full_deck_ref t) w
      in (t\<lparr>deck_ref := a\<rparr>, shuffle_in_place a w1))"

text \<open>
  \<open>draw\<close> over the store. \<open>return []\<close> and the two slices each make a new list; the
  result is the reference of the list returned.
\<close>

definition obj_draw :: "int \<Rightarrow> obj_tarot \<Rightarrow> 'c world \<Rightarrow> ref \<times> obj_tarot \<times> 'c world" where
  "obj_draw n t w =
     (if n \<le> 0 then (let (r, w') = new_list [] w in (r, t, w'))
      else
        let (t1, w1) = (if n > int (length (list_objs w ! deck_ref t))
                        then obj_reset_and_shuffle t w else (t, w));
            (drawn, w2) = new_list (take (nat n) (list_objs w1 ! deck_ref t1)) w1;
            (rest, w3) = new_list (drop (nat n) (list_objs w2 ! deck_ref t1)) w2;
            t2 = t1\<lparr>deck_ref := rest\<rparr>;
            (t3, w4) = (if length (list_objs w3 ! deck_ref t2) < 10
                        then obj_reset_and_shuffle t2 w3 else (t2, w3))
        in (drawn, t3, w4))"

text \<open>
  The constructor: the cards the four \<open>create_*_suit\<close> calls make are new objects, the
  concatenation with the module's list \<open>MAJOR_ARCANA\<close> is a new list.
\<close>

definition obj_init :: "ref \<Rightarrow> 'c list \<Rightarrow> 'c world \<Rightarrow> obj_tarot \<times> 'c world" where
  "obj_init major minors w =
     (let first = length (card_objs w);
          w1 = w\<lparr>card_objs := card_objs w @ minors\<rparr>;
          (full, w2) = new_list (list_objs w1 ! major @ [first ..< first + length minors]) w1
      in obj_reset_and_shuffle \<lparr>full_deck_ref = full, deck_ref = full\<rparr> w2)"

text \<open>Reading a list of references as the list of cards it denotes, and a session with it.\<close>

definition cards_at :: "'c world \<Rightarrow> ref \<Rightarrow> 'c list" where
  "cards_at w a = map (\<lambda>r. card_objs w ! r) (list_objs w ! a)"

definition session_of :: "obj_tarot \<Rightarrow> 'c world \<Rightarrow> 'c tarot" where
  "session_of t w = \<lparr>full_deck = cards_at w (full_deck_ref t), deck = cards_at w (deck_ref t)\<rparr>"

text \<open>A session object is well formed when its two lists exist in the store.\<close>

definition obj_ok :: "obj_tarot \<Rightarrow> 'c world \<Rightarrow> bool" where
  "obj_ok t w = (full_deck_ref t < length (list_objs w) \<and> deck_ref t < length (list_objs w))"

section \<open>The shuffle is a permutation\<close>

lemma length_swap: "length (swap i j xs) = length xs"
  by (simp add: swap_def)

lemma mset_swap_model: "i < length xs \<Longrightarrow> j < length xs \<Longrightarrow> mset (swap i j xs) = mset xs"
  by (simp add: swap_def Let_def mset_swap)

lemma randbelow_less: "0 < k \<Longrightarrow> fst (randbelow k g) < k"
  by (simp add: randbelow_def)

lemma shuffle_loop_mset:
  "k < length xs \<Longrightarrow> mset (fst (shuffle_loop k xs g)) = mset xs"
proof (induction k arbitrary: xs g)
  case 0
  then show ?case by simp
next
  case (Suc k)
  obtain j g' where r: "randbelow (Suc k + 1) g = (j, g')" by (cases "randbelow (Suc k + 1) g")
  have "j < Suc k + 1" using randbelow_less [of "Suc k + 1" g] r by simp
  with Suc.prems have j: "j < length xs" by simp
  have "mset (fst (shuffle_loop k (swap (Suc k) j xs) g')) = mset (swap (Suc k) j xs)"
    using Suc.prems by (intro Suc.IH) (simp add: length_swap)
  also have "\<dots> = mset xs" using Suc.prems j by (simp add: mset_swap_model)
  finally show ?case using r by simp
qed

lemma shuffle_loop_rng: "snd (shuffle_loop k xs g) = sdrop k g"
proof (induction k arbitrary: xs g)
  case 0 show ?case by simp
next
  case (Suc k)
  show ?case by (simp add: randbelow_def Suc.IH)
qed

lemma mset_shuffle: "mset (fst (shuffle xs g)) = mset xs"
proof (cases xs)
  case Nil then show ?thesis by (simp add: shuffle_def)
next
  case (Cons a as)
  then show ?thesis unfolding shuffle_def by (intro shuffle_loop_mset) simp
qed

lemma length_shuffle: "length (fst (shuffle xs g)) = length xs"
  using mset_shuffle [of xs g] by (metis size_mset)

lemma set_shuffle: "set (fst (shuffle xs g)) = set xs"
  using mset_shuffle [of xs g] by (metis set_mset_mset)

lemma distinct_shuffle: "distinct (fst (shuffle xs g)) = distinct xs"
  using mset_shuffle [of xs g] by (metis mset_eq_imp_distinct_iff)

lemma snd_shuffle: "snd (shuffle xs g) = sdrop (length xs - 1) g"
  by (simp add: shuffle_def shuffle_loop_rng)

section \<open>The paths through \<open>draw\<close>\<close>

lemma reset_and_shuffle_eq:
  "reset_and_shuffle t g = (t\<lparr>deck := fst (shuffle (full_deck t) g)\<rparr>, snd (shuffle (full_deck t) g))"
  by (simp add: reset_and_shuffle_def case_prod_beta)

lemma full_deck_reset [simp]: "full_deck (fst (reset_and_shuffle t g)) = full_deck t"
  by (simp add: reset_and_shuffle_eq)

lemma deck_reset: "deck (fst (reset_and_shuffle t g)) = fst (shuffle (full_deck t) g)"
  by (simp add: reset_and_shuffle_eq)

lemma mset_deck_reset: "mset (deck (fst (reset_and_shuffle t g))) = mset (full_deck t)"
  by (simp add: deck_reset mset_shuffle)

lemma reset_inv: "catalog_ok (full_deck t) \<Longrightarrow> session_inv (fst (reset_and_shuffle t g))"
  by (simp add: session_inv_def catalog_ok_def deck_reset distinct_shuffle set_shuffle length_shuffle)

lemma init_inv: "catalog_ok c \<Longrightarrow> session_inv (fst (init c g))"
  unfolding init_def by (rule reset_inv) simp

text \<open>The three ways through draw for a positive request.\<close>

lemma draw_plain:
  "0 < n \<Longrightarrow> \<not> resets_before n t \<Longrightarrow> \<not> resets_after n t \<Longrightarrow>
   draw n t g = (take (nat n) (deck t), t\<lparr>deck := drop (nat n) (deck t)\<rparr>, g)"
  by (simp add: draw_def resets_before_def resets_after_def)

lemma draw_low:
  "0 < n \<Longrightarrow> \<not> resets_before n t \<Longrightarrow> resets_after n t \<Longrightarrow>
   draw n t g = (take (nat n) (deck t),
                 t\<lparr>deck := fst (shuffle (full_deck t) g)\<rparr>, snd (shuffle (full_deck t) g))"
  by (simp add: draw_def resets_before_def resets_after_def reset_and_shuffle_eq)

lemma draw_short:
  "resets_before n t \<Longrightarrow>
   draw n t g =
     (let d = fst (shuffle (full_deck t) g); g1 = snd (shuffle (full_deck t) g) in
      if length (drop (nat n) d) < 10
      then (take (nat n) d, t\<lparr>deck := fst (shuffle (full_deck t) g1)\<rparr>, snd (shuffle (full_deck t) g1))
      else (take (nat n) d, t\<lparr>deck := drop (nat n) d\<rparr>, g1))"
  by (simp add: draw_def resets_before_def reset_and_shuffle_eq Let_def)

lemma full_deck_draw [simp]: "full_deck (fst (snd (draw n t g))) = full_deck t"
  by (simp add: draw_def reset_and_shuffle_eq Let_def)

section \<open>The two catalogues, column by column\<close>

lemma inj_U: "inj U"
  unfolding U_def by (rule injI) (metis inj_of_char list.inj_map_strong injD)

lemma U_eq [simp]: "U a = U b \<longleftrightarrow> a = b"
  using inj_U by (auto dest: injD)

lemma MAJOR_ARCANA_index:
  \<open>map card_key MAJOR_ARCANA =
    [(U ''The Cascade'', U ''Major'', None),
     (U ''The Network'', U ''Major'', None),
     (U ''The Threshold'', U ''Major'', None),
     (U ''The Emergence'', U ''Major'', None),
     (U ''The Collapse'', U ''Major'', None),
     (U ''The Resilience'', U ''Major'', None),
     (U ''The Attention'', U ''Major'', None),
     (U ''The Feedback'', U ''Major'', None),
     (U ''The Boundary'', U ''Major'', None),
     (U ''The Signal'', U ''Major'', None),
     (U ''The Compression'', U ''Major'', None),
     (U ''The Archipelago'', U ''Major'', None),
     (U ''The Continuity'', U ''Major'', None),
     (U ''The Translation'', U ''Major'', None),
     (U ''The Vigilance'', U ''Major'', None),
     (U ''The Reframe'', U ''Major'', None),
     (U ''The Synthesis'', U ''Major'', None),
     (U ''The Stewardship'', U ''Major'', None),
     (U ''The Release'', U ''Major'', None),
     (U ''The Unknown Unknown'', U ''Major'', None),
     (U ''The Legacy'', U ''Major'', None),
     (U ''The Presence'', U ''Major'', None)]\<close>
  by (simp add: MAJOR_ARCANA_def card_key_def)

lemma create_networks_suit_index:
  \<open>map card_key create_networks_suit =
    [(U ''Ace of Networks'', Suit_value NETWORKS, Some 1),
     (U ''Two of Networks'', Suit_value NETWORKS, Some 2),
     (U ''Three of Networks'', Suit_value NETWORKS, Some 3),
     (U ''Four of Networks'', Suit_value NETWORKS, Some 4),
     (U ''Five of Networks'', Suit_value NETWORKS, Some 5),
     (U ''Six of Networks'', Suit_value NETWORKS, Some 6),
     (U ''Seven of Networks'', Suit_value NETWORKS, Some 7),
     (U ''Eight of Networks'', Suit_value NETWORKS, Some 8),
     (U ''Nine of Networks'', Suit_value NETWORKS, Some 9),
     (U ''Ten of Networks'', Suit_value NETWORKS, Some 10),
     (U ''Page of Networks'', Suit_value NETWORKS, Some 11),
     (U ''Knight of Networks'', Suit_value NETWORKS, Some 12),
     (U ''Queen of Networks'', Suit_value NETWORKS, Some 13),
     (U ''King of Networks'', Suit_value NETWORKS, Some 14)]\<close>
  by (simp add: create_networks_suit_def card_key_def)

lemma create_events_suit_index:
  \<open>map card_key create_events_suit =
    [(U ''Ace of Events'', Suit_value EVENTS, Some 1),
     (U ''Two of Events'', Suit_value EVENTS, Some 2),
     (U ''Three of Events'', Suit_value EVENTS, Some 3),
     (U ''Four of Events'', Suit_value EVENTS, Some 4),
     (U ''Five of Events'', Suit_value EVENTS, Some 5),
     (U ''Six of Events'', Suit_value EVENTS, Some 6),
     (U ''Seven of Events'', Suit_value EVENTS, Some 7),
     (U ''Eight of Events'', Suit_value EVENTS, Some 8),
     (U ''Nine of Events'', Suit_value EVENTS, Some 9),
     (U ''Ten of Events'', Suit_value EVENTS, Some 10),
     (U ''Page of Events'', Suit_value EVENTS, Some 11),
     (U ''Knight of Events'', Suit_value EVENTS, Some 12),
     (U ''Queen of Events'', Suit_value EVENTS, Some 13),
     (U ''King of Events'', Suit_value EVENTS, Some 14)]\<close>
  by (simp add: create_events_suit_def card_key_def)

lemma create_agents_suit_index:
  \<open>map card_key create_agents_suit =
    [(U ''Ace of Agents'', Suit_value AGENTS, Some 1),
     (U ''Two of Agents'', Suit_value AGENTS, Some 2),
     (U ''Three of Agents'', Suit_value AGENTS, Some 3),
     (U ''Four of Agents'', Suit_value AGENTS, Some 4),
     (U ''Five of Agents'', Suit_value AGENTS, Some 5),
     (U ''Six of Agents'', Suit_value AGENTS, Some 6),
     (U ''Seven of Agents'', Suit_value AGENTS, Some 7),
     (U ''Eight of Agents'', Suit_value AGENTS, Some 8),
     (U ''Nine of Agents'', Suit_value AGENTS, Some 9),
     (U ''Ten of Agents'', Suit_value AGENTS, Some 10),
     (U ''Page of Agents'', Suit_value AGENTS, Some 11),
     (U ''Knight of Agents'', Suit_value AGENTS, Some 12),
     (U ''Queen of Agents'', Suit_value AGENTS, Some 13),
     (U ''King of Agents'', Suit_value AGENTS, Some 14)]\<close>
  by (simp add: create_agents_suit_def card_key_def)

lemma create_resources_suit_index:
  \<open>map card_key create_resources_suit =
    [(U ''Ace of Resources'', Suit_value RESOURCES, Some 1),
     (U ''Two of Resources'', Suit_value RESOURCES, Some 2),
     (U ''Three of Resources'', Suit_value RESOURCES, Some 3),
     (U ''Four of Resources'', Suit_value RESOURCES, Some 4),
     (U ''Five of Resources'', Suit_value RESOURCES, Some 5),
     (U ''Six of Resources'', Suit_value RESOURCES, Some 6),
     (U ''Seven of Resources'', Suit_value RESOURCES, Some 7),
     (U ''Eight of Resources'', Suit_value RESOURCES, Some 8),
     (U ''Nine of Resources'', Suit_value RESOURCES, Some 9),
     (U ''Ten of Resources'', Suit_value RESOURCES, Some 10),
     (U ''Page of Resources'', Suit_value RESOURCES, Some 11),
     (U ''Knight of Resources'', Suit_value RESOURCES, Some 12),
     (U ''Queen of Resources'', Suit_value RESOURCES, Some 13),
     (U ''King of Resources'', Suit_value RESOURCES, Some 14)]\<close>
  by (simp add: create_resources_suit_def card_key_def)


lemma risk_MAJOR_ARCANA_index:
  \<open>map card_key risk_MAJOR_ARCANA =
    [(U ''The Cascade'', U ''Major'', None),
     (U ''The Mycelium'', U ''Major'', None),
     (U ''The Threshold'', U ''Major'', None),
     (U ''The Emergence'', U ''Major'', None),
     (U ''The Collapse'', U ''Major'', None),
     (U ''The Resilience'', U ''Major'', None),
     (U ''The Attention'', U ''Major'', None),
     (U ''The Feedback'', U ''Major'', None),
     (U ''The Boundary'', U ''Major'', None),
     (U ''The Signal'', U ''Major'', None),
     (U ''The Compression'', U ''Major'', None),
     (U ''The Archipelago'', U ''Major'', None),
     (U ''The Continuity'', U ''Major'', None),
     (U ''The Translation'', U ''Major'', None),
     (U ''The Hypervigilance'', U ''Major'', None),
     (U ''The Janke'', U ''Major'', None),
     (U ''The Synthesis'', U ''Major'', None),
     (U ''The Stewardship'', U ''Major'', None),
     (U ''The Compression Release'', U ''Major'', None),
     (U ''The Unknown Unknown'', U ''Major'', None),
     (U ''The Legacy'', U ''Major'', None),
     (U ''The Presence'', U ''Major'', None)]\<close>
  by (simp add: risk_MAJOR_ARCANA_def card_key_def)

lemma risk_create_networks_suit_index:
  \<open>map card_key risk_create_networks_suit =
    [(U ''Ace of Networks'', Suit_value NETWORKS, Some 1),
     (U ''Two of Networks'', Suit_value NETWORKS, Some 2),
     (U ''Three of Networks'', Suit_value NETWORKS, Some 3),
     (U ''Four of Networks'', Suit_value NETWORKS, Some 4),
     (U ''Five of Networks'', Suit_value NETWORKS, Some 5),
     (U ''Six of Networks'', Suit_value NETWORKS, Some 6),
     (U ''Seven of Networks'', Suit_value NETWORKS, Some 7),
     (U ''Eight of Networks'', Suit_value NETWORKS, Some 8),
     (U ''Nine of Networks'', Suit_value NETWORKS, Some 9),
     (U ''Ten of Networks'', Suit_value NETWORKS, Some 10),
     (U ''Page of Networks'', Suit_value NETWORKS, Some 11),
     (U ''Knight of Networks'', Suit_value NETWORKS, Some 12),
     (U ''Queen of Networks'', Suit_value NETWORKS, Some 13),
     (U ''King of Networks'', Suit_value NETWORKS, Some 14)]\<close>
  by (simp add: risk_create_networks_suit_def card_key_def)

lemma risk_create_events_suit_index:
  \<open>map card_key risk_create_events_suit =
    [(U ''Ace of Events'', Suit_value EVENTS, Some 1),
     (U ''Two of Events'', Suit_value EVENTS, Some 2),
     (U ''Three of Events'', Suit_value EVENTS, Some 3),
     (U ''Four of Events'', Suit_value EVENTS, Some 4),
     (U ''Five of Events'', Suit_value EVENTS, Some 5),
     (U ''Six of Events'', Suit_value EVENTS, Some 6),
     (U ''Seven of Events'', Suit_value EVENTS, Some 7),
     (U ''Eight of Events'', Suit_value EVENTS, Some 8),
     (U ''Nine of Events'', Suit_value EVENTS, Some 9),
     (U ''Ten of Events'', Suit_value EVENTS, Some 10),
     (U ''Page of Events'', Suit_value EVENTS, Some 11),
     (U ''Knight of Events'', Suit_value EVENTS, Some 12),
     (U ''Queen of Events'', Suit_value EVENTS, Some 13),
     (U ''King of Events'', Suit_value EVENTS, Some 14)]\<close>
  by (simp add: risk_create_events_suit_def card_key_def)

lemma risk_create_agents_suit_index:
  \<open>map card_key risk_create_agents_suit =
    [(U ''Ace of Agents'', Suit_value AGENTS, Some 1),
     (U ''Two of Agents'', Suit_value AGENTS, Some 2),
     (U ''Three of Agents'', Suit_value AGENTS, Some 3),
     (U ''Four of Agents'', Suit_value AGENTS, Some 4),
     (U ''Five of Agents'', Suit_value AGENTS, Some 5),
     (U ''Six of Agents'', Suit_value AGENTS, Some 6),
     (U ''Seven of Agents'', Suit_value AGENTS, Some 7),
     (U ''Eight of Agents'', Suit_value AGENTS, Some 8),
     (U ''Nine of Agents'', Suit_value AGENTS, Some 9),
     (U ''Ten of Agents'', Suit_value AGENTS, Some 10),
     (U ''Page of Agents'', Suit_value AGENTS, Some 11),
     (U ''Knight of Agents'', Suit_value AGENTS, Some 12),
     (U ''Queen of Agents'', Suit_value AGENTS, Some 13),
     (U ''King of Agents'', Suit_value AGENTS, Some 14)]\<close>
  by (simp add: risk_create_agents_suit_def card_key_def)

lemma risk_create_resources_suit_index:
  \<open>map card_key risk_create_resources_suit =
    [(U ''Ace of Resources'', Suit_value RESOURCES, Some 1),
     (U ''Two of Resources'', Suit_value RESOURCES, Some 2),
     (U ''Three of Resources'', Suit_value RESOURCES, Some 3),
     (U ''Four of Resources'', Suit_value RESOURCES, Some 4),
     (U ''Five of Resources'', Suit_value RESOURCES, Some 5),
     (U ''Six of Resources'', Suit_value RESOURCES, Some 6),
     (U ''Seven of Resources'', Suit_value RESOURCES, Some 7),
     (U ''Eight of Resources'', Suit_value RESOURCES, Some 8),
     (U ''Nine of Resources'', Suit_value RESOURCES, Some 9),
     (U ''Ten of Resources'', Suit_value RESOURCES, Some 10),
     (U ''Page of Resources'', Suit_value RESOURCES, Some 11),
     (U ''Knight of Resources'', Suit_value RESOURCES, Some 12),
     (U ''Queen of Resources'', Suit_value RESOURCES, Some 13),
     (U ''King of Resources'', Suit_value RESOURCES, Some 14)]\<close>
  by (simp add: risk_create_resources_suit_def card_key_def)


lemmas sys_index = MAJOR_ARCANA_index create_networks_suit_index create_events_suit_index
  create_agents_suit_index create_resources_suit_index

lemmas risk_index = risk_MAJOR_ARCANA_index risk_create_networks_suit_index
  risk_create_events_suit_index risk_create_agents_suit_index risk_create_resources_suit_index

lemma distinct_key: "distinct (map card_key xs) \<Longrightarrow> distinct xs"
  by (rule distinct_map [THEN iffD1, THEN conjunct1])

lemma sys_distinct: "distinct SystemsTarot_full_deck"
  by (rule distinct_key) (simp add: SystemsTarot_full_deck_def sys_index)

lemma sys_length: "length SystemsTarot_full_deck = 78"
proof -
  have "length (map card_key SystemsTarot_full_deck) = 78"
    by (simp add: SystemsTarot_full_deck_def sys_index)
  then show ?thesis by simp
qed

lemma risk_distinct: "distinct TonysTarot_full_deck"
  by (rule distinct_key) (simp add: TonysTarot_full_deck_def risk_index)

lemma risk_length: "length TonysTarot_full_deck = 78"
proof -
  have "length (map card_key TonysTarot_full_deck) = 78"
    by (simp add: TonysTarot_full_deck_def risk_index)
  then show ?thesis by simp
qed

lemma sys_catalog_ok: "catalog_ok SystemsTarot_full_deck"
  by (simp add: catalog_ok_def sys_distinct sys_length)

lemma risk_catalog_ok: "catalog_ok TonysTarot_full_deck"
  by (simp add: catalog_ok_def risk_distinct risk_length)

lemma number_by_type:
  "map number (of_category ty xs) =
   map (snd \<circ> snd) (filter (\<lambda>k. fst (snd k) = ty) (map card_key xs))"
  unfolding of_category_def by (induction xs) (auto simp: card_key_def)

lemma full_deck_init [simp]: "full_deck (fst (init c g)) = c"
  by (simp add: init_def reset_and_shuffle_def case_prod_beta)

lemma sys_major_ranks:
  "map number (of_category (U ''Major'') SystemsTarot_full_deck) = replicate 22 None"
  by (simp add: number_by_type SystemsTarot_full_deck_def sys_index numeral_eq_Suc)

lemma sys_suit_ranks:
  "map number (of_category (Suit_value NETWORKS) SystemsTarot_full_deck)
     = map Some [1, 2, 3, 4, 5, 6, 7, 8, 9, 10, 11, 12, 13, 14]"
  "map number (of_category (Suit_value EVENTS) SystemsTarot_full_deck)
     = map Some [1, 2, 3, 4, 5, 6, 7, 8, 9, 10, 11, 12, 13, 14]"
  "map number (of_category (Suit_value AGENTS) SystemsTarot_full_deck)
     = map Some [1, 2, 3, 4, 5, 6, 7, 8, 9, 10, 11, 12, 13, 14]"
  "map number (of_category (Suit_value RESOURCES) SystemsTarot_full_deck)
     = map Some [1, 2, 3, 4, 5, 6, 7, 8, 9, 10, 11, 12, 13, 14]"
  by (simp_all add: number_by_type SystemsTarot_full_deck_def sys_index)

lemma risk_major_ranks:
  "map number (of_category (U ''Major'') TonysTarot_full_deck) = replicate 22 None"
  by (simp add: number_by_type TonysTarot_full_deck_def risk_index numeral_eq_Suc)

lemma risk_suit_ranks:
  "map number (of_category (Suit_value NETWORKS) TonysTarot_full_deck)
     = map Some [1, 2, 3, 4, 5, 6, 7, 8, 9, 10, 11, 12, 13, 14]"
  "map number (of_category (Suit_value EVENTS) TonysTarot_full_deck)
     = map Some [1, 2, 3, 4, 5, 6, 7, 8, 9, 10, 11, 12, 13, 14]"
  "map number (of_category (Suit_value AGENTS) TonysTarot_full_deck)
     = map Some [1, 2, 3, 4, 5, 6, 7, 8, 9, 10, 11, 12, 13, 14]"
  "map number (of_category (Suit_value RESOURCES) TonysTarot_full_deck)
     = map Some [1, 2, 3, 4, 5, 6, 7, 8, 9, 10, 11, 12, 13, 14]"
  by (simp_all add: number_by_type TonysTarot_full_deck_def risk_index)

section \<open>What the invariant gives\<close>

lemma inv_lengths:
  "session_inv t \<Longrightarrow> length (full_deck t) = 78 \<and> length (deck t) \<le> 78 \<and> 10 \<le> length (deck t)"
proof -
  assume a: "session_inv t"
  then have "distinct (deck t)" "set (deck t) \<subseteq> set (full_deck t)" "length (full_deck t) = 78"
    by (simp_all add: session_inv_def catalog_ok_def)
  then have "length (deck t) \<le> 78"
    by (metis card_mono distinct_card List.finite_set card_length le_trans)
  with a show ?thesis by (simp add: session_inv_def catalog_ok_def)
qed

lemma fresh_facts:
  "catalog_ok (full_deck t) \<Longrightarrow>
   length (fst (shuffle (full_deck t) g)) = 78 \<and> distinct (fst (shuffle (full_deck t) g)) \<and>
   set (fst (shuffle (full_deck t) g)) = set (full_deck t)"
  by (simp add: catalog_ok_def length_shuffle distinct_shuffle set_shuffle)

lemma fst_draw:
  "0 < n \<Longrightarrow> fst (draw n t g) =
     take (nat n) (if resets_before n t then fst (shuffle (full_deck t) g) else deck t)"
  by (simp add: draw_def resets_before_def reset_and_shuffle_eq Let_def case_prod_beta)

lemma draw_big:
  assumes inv: "session_inv t" and big: "78 < n"
  shows "draw n t g =
           (fst (shuffle (full_deck t) g),
            t\<lparr>deck := fst (shuffle (full_deck t) (snd (shuffle (full_deck t) g)))\<rparr>,
            sdrop 154 g)"
proof -
  have cat: "catalog_ok (full_deck t)" using inv by (simp add: session_inv_def)
  have rb: "resets_before n t" using inv_lengths [OF inv] big by (simp add: resets_before_def)
  have l: "length (fst (shuffle (full_deck t) g)) = 78" using fresh_facts [OF cat] by simp
  have lf: "length (full_deck t) = 78" using cat by (simp add: catalog_ok_def)
  have "sdrop 77 (sdrop 77 g) = sdrop 154 g" by simp
  then show ?thesis
    using big l by (simp add: draw_short [OF rb] Let_def snd_shuffle lf)
qed

lemma draw_inv:
  assumes inv: "session_inv t"
  shows "session_inv (fst (snd (draw n t g)))"
proof (cases "n \<le> 0")
  case True
  then show ?thesis using inv by (simp add: draw_def)
next
  case False
  then have pos: "0 < n" by simp
  have cat: "catalog_ok (full_deck t)" using inv by (simp add: session_inv_def)
  show ?thesis
  proof (cases "resets_before n t")
    case True
    have sub: "set (drop (nat n) (fst (shuffle (full_deck t) g))) \<subseteq> set (full_deck t)"
      using fresh_facts [OF cat, of g] set_drop_subset [of "nat n" "fst (shuffle (full_deck t) g)"] by blast
    show ?thesis
      using fresh_facts [OF cat] cat sub
      by (simp add: draw_short [OF True] Let_def session_inv_def)
  next
    case nb: False
    show ?thesis
    proof (cases "resets_after n t")
      case True
      show ?thesis using fresh_facts [OF cat] cat
        by (simp add: draw_low [OF pos nb True] session_inv_def)
    next
      case False
      have sub: "set (drop (nat n) (deck t)) \<subseteq> set (full_deck t)"
        using inv set_drop_subset [of "nat n" "deck t"] by (auto simp: session_inv_def)
      show ?thesis using inv False pos sub
        by (simp add: draw_plain [OF pos nb False] session_inv_def resets_after_def)
    qed
  qed
qed


lemma refill_deck:
  assumes inv: "session_inv t" and pos: "0 < n" and low: "left_by_slice n t g < 10"
  shows "deck (fst (snd (draw n t g))) =
           fst (shuffle (full_deck t)
                  (if resets_before n t then snd (shuffle (full_deck t) g) else g))"
proof (cases "resets_before n t")
  case True
  then have "length (drop (nat n) (fst (shuffle (full_deck t) g))) < 10"
    using low by (simp add: left_by_slice_def resets_before_def deck_reset)
  then show ?thesis using True by (simp add: draw_short [OF True] Let_def)
next
  case False
  then have "resets_after n t"
    using low pos by (simp add: left_by_slice_def resets_before_def resets_after_def)
  then show ?thesis using False by (simp add: draw_low [OF pos False])
qed

lemma after_refill:
  assumes l78: "length (deck t) = 78" and m0: "0 \<le> m" and m68: "m \<le> 68"
  shows "fst (draw m t g) = take (nat m) (deck t) \<and>
         deck (fst (snd (draw m t g))) = drop (nat m) (deck t)"
proof (cases "m = 0")
  case True
  then show ?thesis by (simp add: draw_def)
next
  case False
  with m0 have mp: "0 < m" by simp
  have nb: "\<not> resets_before m t" using l78 m68 by (simp add: resets_before_def)
  have "nat m \<le> 68" using m68 by simp
  then have "\<not> 78 - nat m < 10" by arith
  then have na: "\<not> resets_after m t" using l78 by (simp add: resets_after_def)
  show ?thesis by (simp add: draw_plain [OF mp nb na])
qed

lemma left_by_slice_plain:
  "n \<le> int (length (deck t)) \<Longrightarrow> left_by_slice n t g = length (deck t) - nat n"
  by (simp add: left_by_slice_def)

section \<open>The example session\<close>

lemma example_inv: "session_inv example_session"
  unfolding example_session_def SystemsTarot_new_def by (rule init_inv [OF sys_catalog_ok])

lemma example_full: "full_deck example_session = SystemsTarot_full_deck"
  by (simp add: example_session_def SystemsTarot_new_def)

lemma example_length: "length (deck example_session) = 78"
  by (simp add: example_session_def SystemsTarot_new_def init_def deck_reset length_shuffle
      sys_length)

lemma example_rng_eq: "example_rng = fromN 77"
  by (simp add: example_rng_def SystemsTarot_new_def init_def reset_and_shuffle_eq snd_shuffle
      sys_length)

section \<open>The catalogue a session starts with\<close>

text \<open>
  Claim C6. The catalogue the constructor builds has exactly 78 cards. Its cards of
  category Major are 22, each with no rank; its cards of each of the categories
  Networks, Events, Agents and Resources are 14, and their ranks, in catalogue order,
  are 1, 2, ..., 14: every rank once, none missing, none twice. This holds for the
  constructor of \<open>SystemsTarot\<close> and for that of \<open>TonysTarot\<close>, whatever the generator.
\<close>

theorem catalog_composition:
  "length (full_deck (fst (SystemsTarot_new g))) = 78 \<and>
   map number (of_category (U ''Major'') (full_deck (fst (SystemsTarot_new g)))) = replicate 22 None \<and>
   map number (of_category (Suit_value NETWORKS) (full_deck (fst (SystemsTarot_new g))))
     = map Some [1, 2, 3, 4, 5, 6, 7, 8, 9, 10, 11, 12, 13, 14] \<and>
   map number (of_category (Suit_value EVENTS) (full_deck (fst (SystemsTarot_new g))))
     = map Some [1, 2, 3, 4, 5, 6, 7, 8, 9, 10, 11, 12, 13, 14] \<and>
   map number (of_category (Suit_value AGENTS) (full_deck (fst (SystemsTarot_new g))))
     = map Some [1, 2, 3, 4, 5, 6, 7, 8, 9, 10, 11, 12, 13, 14] \<and>
   map number (of_category (Suit_value RESOURCES) (full_deck (fst (SystemsTarot_new g))))
     = map Some [1, 2, 3, 4, 5, 6, 7, 8, 9, 10, 11, 12, 13, 14] \<and>
   length (full_deck (fst (TonysTarot_new g'))) = 78 \<and>
   map number (of_category (U ''Major'') (full_deck (fst (TonysTarot_new g')))) = replicate 22 None \<and>
   map number (of_category (Suit_value NETWORKS) (full_deck (fst (TonysTarot_new g'))))
     = map Some [1, 2, 3, 4, 5, 6, 7, 8, 9, 10, 11, 12, 13, 14] \<and>
   map number (of_category (Suit_value EVENTS) (full_deck (fst (TonysTarot_new g'))))
     = map Some [1, 2, 3, 4, 5, 6, 7, 8, 9, 10, 11, 12, 13, 14] \<and>
   map number (of_category (Suit_value AGENTS) (full_deck (fst (TonysTarot_new g'))))
     = map Some [1, 2, 3, 4, 5, 6, 7, 8, 9, 10, 11, 12, 13, 14] \<and>
   map number (of_category (Suit_value RESOURCES) (full_deck (fst (TonysTarot_new g'))))
     = map Some [1, 2, 3, 4, 5, 6, 7, 8, 9, 10, 11, 12, 13, 14]"
  unfolding SystemsTarot_new_def TonysTarot_new_def full_deck_init
  using sys_length sys_major_ranks sys_suit_ranks risk_length risk_major_ranks risk_suit_ranks
  by simp

section \<open>Requests within the catalogue\<close>

text \<open>
  Claim C1. For every \<open>n\<close> with \<open>0 \<le> n \<le> 78\<close>, on a session that satisfies the
  invariant, \<open>draw(n)\<close> returns exactly \<open>n\<close> cards, pairwise distinct, all members of
  the 78-card catalogue, and they are the first \<open>n\<close> cards of the draw order, in its
  order. The draw order meant is the one the slice \<open>self.deck[:n]\<close> reads: the
  session's order when it holds at least \<open>n\<close> cards, and otherwise the freshly
  shuffled catalogue that the call has put in its place just before.
\<close>

theorem draw_in_range:
  assumes inv: "session_inv t" and n0: "0 \<le> n" and n78: "n \<le> 78"
  shows "length (fst (draw n t g)) = nat n \<and>
         distinct (fst (draw n t g)) \<and>
         set (fst (draw n t g)) \<subseteq> set (full_deck t) \<and>
         fst (draw n t g) =
           take (nat n) (if resets_before n t then deck (fst (reset_and_shuffle t g)) else deck t)"
proof (cases "n = 0")
  case True
  then show ?thesis by (simp add: draw_def)
next
  case False
  with n0 have pos: "0 < n" by simp
  let ?d = "if resets_before n t then fst (shuffle (full_deck t) g) else deck t"
  have cat: "catalog_ok (full_deck t)" using inv by (simp add: session_inv_def)
  have len: "nat n \<le> length ?d"
    using fresh_facts [OF cat, of g] n78 by (auto simp: resets_before_def)
  have dist: "distinct ?d"
    using fresh_facts [OF cat, of g] inv by (simp add: session_inv_def)
  have sub: "set ?d \<subseteq> set (full_deck t)"
    using fresh_facts [OF cat, of g] inv by (simp add: session_inv_def)
  have r: "fst (draw n t g) = take (nat n) ?d" by (rule fst_draw [OF pos])
  have "length (take (nat n) ?d) = nat n" using len by simp
  moreover have "distinct (take (nat n) ?d)" using dist by simp
  moreover have "set (take (nat n) ?d) \<subseteq> set (full_deck t)"
    using sub set_take_subset [of "nat n" ?d] by blast
  ultimately show ?thesis unfolding r by (simp add: deck_reset)
qed

theorem draw_in_range_witness:
  "session_inv example_session \<and> (0::int) \<le> 5 \<and> (5::int) \<le> 78 \<and>
   length (fst (draw 5 example_session example_rng)) = 5 \<and>
   distinct (fst (draw 5 example_session example_rng)) \<and>
   set (fst (draw 5 example_session example_rng)) \<subseteq> set SystemsTarot_full_deck \<and>
   fst (draw 5 example_session example_rng) = take 5 (deck example_session)"
  using draw_in_range [OF example_inv, of 5 example_rng] example_inv
  by (auto simp: example_full resets_before_def example_length)

section \<open>Requests beyond the catalogue\<close>

text \<open>
  Claim C5. For every \<open>n > 78\<close>, on a session that satisfies the invariant, \<open>draw(n)\<close>
  returns only as many cards as the catalogue has: exactly 78 pairwise distinct cards,
  the whole catalogue in some order, and not \<open>n\<close> cards.
\<close>

theorem draw_oversized:
  assumes inv: "session_inv t" and big: "78 < n"
  shows "length (fst (draw n t g)) = 78 \<and> distinct (fst (draw n t g)) \<and>
         set (fst (draw n t g)) = set (full_deck t) \<and>
         mset (fst (draw n t g)) = mset (full_deck t) \<and>
         length (fst (draw n t g)) \<noteq> nat n"
proof -
  have cat: "catalog_ok (full_deck t)" using inv by (simp add: session_inv_def)
  have "fst (draw n t g) = fst (shuffle (full_deck t) g)"
    by (simp add: draw_big [OF inv big])
  then show ?thesis using fresh_facts [OF cat, of g] big by (simp add: mset_shuffle)
qed

theorem draw_oversized_witness:
  "session_inv example_session \<and> (78::int) < 79 \<and>
   length (fst (draw 79 example_session example_rng)) = 78 \<and>
   distinct (fst (draw 79 example_session example_rng)) \<and>
   set (fst (draw 79 example_session example_rng)) = set SystemsTarot_full_deck"
  using draw_oversized [OF example_inv, of 79 example_rng] example_inv
  by (simp add: example_full)

text \<open>
  Claim C4, as the specification has it: for every \<open>n > 78\<close> the call repeats the
  reset-and-reshuffle without end and never returns. The method has no loop. The
  test \<open>n > len(self.deck)\<close> is an \<open>if\<close>, taken once; the only loop of the call is the
  one inside \<open>random.shuffle\<close>, which runs 77 times on a list of 78. On the example
  session the call \<open>draw(79)\<close> returns the 78 cards of one shuffle, after two shuffles
  in all.
\<close>

theorem draw_oversized_returns_example:
  "draw 79 example_session example_rng =
     (deck (fst (reset_and_shuffle example_session example_rng)),
      fst (reset_and_shuffle example_session (snd (reset_and_shuffle example_session example_rng))),
      sdrop 154 example_rng) \<and>
   length (fst (draw 79 example_session example_rng)) = 78"
proof -
  have "(78::int) < 79" by simp
  from draw_big [OF example_inv this, of example_rng]
  show ?thesis
    using fresh_facts [of example_session example_rng] example_inv
    by (simp add: reset_and_shuffle_eq session_inv_def)
qed

text \<open>
  Claim C4, amended. For every \<open>n > 78\<close>, on a session that satisfies the invariant,
  \<open>draw(n)\<close> returns: it shuffles a fresh copy of the catalogue, returns all 78 cards
  of it, is left with an empty draw order, and so shuffles a second fresh copy, which
  is the draw order afterwards. The generator has been asked for exactly
  \<open>2 \<times> 77\<close> values.
\<close>

theorem draw_oversized_returns:
  assumes inv: "session_inv t" and big: "78 < n"
  shows "draw n t g =
           (deck (fst (reset_and_shuffle t g)),
            fst (reset_and_shuffle t (snd (reset_and_shuffle t g))),
            sdrop 154 g)"
  using draw_big [OF inv big, of g] by (simp add: reset_and_shuffle_eq)

theorem draw_oversized_returns_witness:
  "session_inv example_session \<and> (78::int) < 1000 \<and>
   draw 1000 example_session example_rng =
     (deck (fst (reset_and_shuffle example_session example_rng)),
      fst (reset_and_shuffle example_session (snd (reset_and_shuffle example_session example_rng))),
      sdrop 154 example_rng)"
  using draw_oversized_returns [OF example_inv, of 1000 example_rng] example_inv
  by simp

section \<open>The invariant of the session\<close>

text \<open>
  Claim C10. The constructor, \<open>reset_and_shuffle\<close> and \<open>draw\<close> keep the invariant: in
  every session a caller can observe, built on a catalogue of 78 different cards, the
  draw order holds pairwise distinct cards, each a member of the catalogue, and at
  least 10 of them; the catalogue is the one the constructor was given.
\<close>

theorem reachable_inv:
  assumes "reachable c t" and "catalog_ok c"
  shows "session_inv t \<and> full_deck t = c \<and>
         distinct (deck t) \<and> set (deck t) \<subseteq> set c \<and> 10 \<le> length (deck t)"
proof -
  from assms have "session_inv t \<and> full_deck t = c"
  proof (induction rule: reachable.induct)
    case (r_init g)
    then show ?case by (simp add: init_inv)
  next
    case (r_reset t g)
    then show ?case by (simp add: reset_inv)
  next
    case (r_draw t n g)
    then show ?case by (simp add: draw_inv)
  qed
  then show ?thesis by (auto simp: session_inv_def)
qed

theorem reachable_inv_witness:
  "reachable SystemsTarot_full_deck (fst (snd (draw 70 example_session example_rng))) \<and>
   catalog_ok SystemsTarot_full_deck \<and>
   session_inv (fst (snd (draw 70 example_session example_rng))) \<and>
   10 \<le> length (deck (fst (snd (draw 70 example_session example_rng))))"
proof -
  have "reachable SystemsTarot_full_deck example_session"
    unfolding example_session_def SystemsTarot_new_def by (rule r_init)
  then have r: "reachable SystemsTarot_full_deck (fst (snd (draw 70 example_session example_rng)))"
    by (rule r_draw)
  from reachable_inv [OF r sys_catalog_ok] r sys_catalog_ok show ?thesis by simp
qed

section \<open>A shuffle epoch\<close>



section \<open>The low-water mark\<close>

text \<open>
  Claim C2, as the specification has it: after any \<open>draw(n)\<close> that leaves fewer than
  10 cards the draw order is a fresh shuffle of the whole catalogue, so the next
  \<open>draw(m)\<close> leaves exactly \<open>78 - m\<close> cards. The second half fails for the larger
  requests: a \<open>draw(70)\<close> on the example session leaves 8 cards and refills, and the
  next \<open>draw(70)\<close> leaves 8 again and refills again, so that 78 cards remain and
  not \<open>78 - 70\<close>.
\<close>

theorem low_water_second_call_example:
  "left_by_slice 70 example_session example_rng < 10 \<and>
   length (deck (fst (snd (draw 70 (fst (snd (draw 70 example_session example_rng)))
                                   (snd (snd (draw 70 example_session example_rng)))))))
     \<noteq> 78 - nat 70"
proof -
  let ?t1 = "fst (snd (draw 70 example_session example_rng))"
  let ?g1 = "snd (snd (draw 70 example_session example_rng))"
  have low: "left_by_slice 70 example_session example_rng < 10"
    by (simp add: left_by_slice_plain example_length)
  have inv1: "session_inv ?t1" by (rule draw_inv [OF example_inv])
  have cat: "catalog_ok (full_deck example_session)" using example_inv by (simp add: session_inv_def)
  have "(0::int) < 70" by simp
  from refill_deck [OF example_inv this low]
  have l1: "length (deck ?t1) = 78" using fresh_facts [OF cat] by simp
  have low1: "left_by_slice 70 ?t1 ?g1 < 10" by (simp add: left_by_slice_plain l1)
  have cat1: "catalog_ok (full_deck ?t1)" using inv1 by (simp add: session_inv_def)
  have "(0::int) < 70" by simp
  from refill_deck [OF inv1 this low1]
  have "length (deck (fst (snd (draw 70 ?t1 ?g1)))) = 78" using fresh_facts [OF cat1] by simp
  with low show ?thesis by simp
qed

text \<open>
  Claim C2, amended. On a session that satisfies the invariant, after any \<open>draw(n)\<close>
  with \<open>n > 0\<close> that leaves fewer than 10 cards, the draw order is a freshly shuffled
  full copy of the catalogue (the cards left over are discarded), 78 cards long; and
  for every \<open>m\<close> with \<open>0 \<le> m \<le> 68\<close> the next \<open>draw(m)\<close> takes its cards from the
  front of that order and leaves exactly \<open>78 - m\<close> of them. (For larger \<open>m\<close> the
  second call falls below the mark itself and refills again.)
\<close>

theorem low_water_refill:
  assumes inv: "session_inv t" and pos: "0 < n" and low: "left_by_slice n t g < 10"
      and m0: "0 \<le> m" and m68: "m \<le> 68"
  shows "full_deck (fst (snd (draw n t g))) = full_deck t \<and>
         deck (fst (snd (draw n t g))) =
           fst (shuffle (full_deck t) (if resets_before n t then snd (shuffle (full_deck t) g) else g)) \<and>
         mset (deck (fst (snd (draw n t g)))) = mset (full_deck t) \<and>
         length (deck (fst (snd (draw n t g)))) = 78 \<and>
         fst (draw m (fst (snd (draw n t g))) (snd (snd (draw n t g))))
           = take (nat m) (deck (fst (snd (draw n t g)))) \<and>
         deck (fst (snd (draw m (fst (snd (draw n t g))) (snd (snd (draw n t g))))))
           = drop (nat m) (deck (fst (snd (draw n t g)))) \<and>
         length (deck (fst (snd (draw m (fst (snd (draw n t g))) (snd (snd (draw n t g)))))))
           = 78 - nat m"
proof -
  let ?t1 = "fst (snd (draw n t g))" and ?g1 = "snd (snd (draw n t g))"
  let ?gx = "if resets_before n t then snd (shuffle (full_deck t) g) else g"
  have cat: "catalog_ok (full_deck t)" using inv by (simp add: session_inv_def)
  have dk: "deck ?t1 = fst (shuffle (full_deck t) ?gx)" by (rule refill_deck [OF inv pos low])
  have l78: "length (deck ?t1) = 78" using fresh_facts [OF cat] by (simp add: dk)
  have ms: "mset (deck ?t1) = mset (full_deck t)" by (simp add: dk mset_shuffle)
  note second = after_refill [OF l78 m0 m68, of ?g1]
  then have "length (deck (fst (snd (draw m ?t1 ?g1)))) = 78 - nat m" using l78 by simp
  with second dk l78 ms show ?thesis by simp
qed

theorem low_water_refill_witness:
  "session_inv example_session \<and> (0::int) < 70 \<and>
   left_by_slice 70 example_session example_rng < 10 \<and> (0::int) \<le> 5 \<and> (5::int) \<le> 68 \<and>
   length (deck (fst (snd (draw 70 example_session example_rng)))) = 78 \<and>
   length (deck (fst (snd (draw 5 (fst (snd (draw 70 example_session example_rng)))
                                  (snd (snd (draw 70 example_session example_rng)))))))
     = 73"
proof -
  have low: "left_by_slice 70 example_session example_rng < 10"
    by (simp add: left_by_slice_plain example_length)
  have p: "(0::int) < 70" and a: "(0::int) \<le> 5" and b: "(5::int) \<le> 68" by simp_all
  note r = low_water_refill [OF example_inv p low a b]
  from r have x: "length (deck (fst (snd (draw 70 example_session example_rng)))) = 78"
    by (elim conjE)
  from r have y: "length (deck (fst (snd (draw 5 (fst (snd (draw 70 example_session example_rng)))
                                  (snd (snd (draw 70 example_session example_rng))))))) = 78 - nat 5"
    by (elim conjE)
  from x y example_inv low show ?thesis by simp
qed

section \<open>Requests for no cards\<close>

text \<open>
  Claim C7. \<open>draw(0)\<close> returns the empty sequence and leaves the draw order as it
  was, and the same holds for every negative \<open>n\<close>: for all \<open>n \<le> 0\<close> the result is the
  empty list, the session (catalogue and draw order) is unchanged, the generator is
  unchanged, and there is no error branch.
\<close>

theorem draw_nonpositive:
  "n \<le> 0 \<Longrightarrow> draw n t g = ([], t, g)"
  by (simp add: draw_def)

theorem draw_nonpositive_witness:
  "draw 0 \<lparr>full_deck = [1, 2, 3 :: nat], deck = [3, 1]\<rparr> (sconst 0)
     = ([], \<lparr>full_deck = [1, 2, 3], deck = [3, 1]\<rparr>, sconst 0)
   \<and> draw (- 4) \<lparr>full_deck = [1, 2, 3 :: nat], deck = [3, 1]\<rparr> (sconst 0)
     = ([], \<lparr>full_deck = [1, 2, 3], deck = [3, 1]\<rparr>, sconst 0)"
  using draw_nonpositive [of 0 "\<lparr>full_deck = [1, 2, 3 :: nat], deck = [3, 1]\<rparr>" "sconst 0"]
        draw_nonpositive [of "- 4" "\<lparr>full_deck = [1, 2, 3 :: nat], deck = [3, 1]\<rparr>" "sconst 0"]
  by simp


end
